theory Spec2Isabelle
  imports Complex_Main "HOL-Library.Sublist"
begin

section \<open>Python values used by the service\<close>

text \<open>
  The development embeds the caching gateway of the cryptocurrency API
  (\<^verbatim>\<open>app/utils/cache.py\<close>, \<^verbatim>\<open>app/services/livecoinwatch.py\<close>,
  \<^verbatim>\<open>app/utils/validators.py\<close>, \<^verbatim>\<open>app/main.py\<close>).

  Modelling conventions.
  \<^item> A Python \<^verbatim>\<open>str\<close> is a \<^typ>\<open>string\<close>; case mapping and whitespace are those of
    ASCII, every other character is left alone by \<open>lower\<close>, \<open>upper\<close> and \<open>strip\<close>.
  \<^item> A Python \<^verbatim>\<open>float\<close> is an IEEE 754 binary64 value: sign, integer mantissa and binary
    exponent, or an infinity, or NaN; subtraction and multiplication round to nearest,
    ties to even.
  \<^item> Readings of \<^verbatim>\<open>time.time()\<close> are real numbers (seconds); the difference of two
    readings is taken exactly, as the float subtraction of two epoch times is.
  \<^item> A parsed JSON document is a value of type \<open>json\<close>; \<^verbatim>\<open>None\<close> is \<open>JNull\<close>.
  \<^item> Every \<^verbatim>\<open>raise\<close> is a value \<open>Inl e\<close> of the result type.
\<close>

subsection \<open>Strings\<close>

definition ascii_uppercase :: string where
  "ascii_uppercase = ''ABCDEFGHIJKLMNOPQRSTUVWXYZ''"

definition ascii_lowercase :: string where
  "ascii_lowercase = ''abcdefghijklmnopqrstuvwxyz''"

definition digits :: string where
  "digits = ''0123456789''"

definition lower_char :: "char \<Rightarrow> char" where
  "lower_char c = (case map_of (zip ascii_uppercase ascii_lowercase) c of Some d \<Rightarrow> d | None \<Rightarrow> c)"

definition upper_char :: "char \<Rightarrow> char" where
  "upper_char c = (case map_of (zip ascii_lowercase ascii_uppercase) c of Some d \<Rightarrow> d | None \<Rightarrow> c)"

text \<open>\<^verbatim>\<open>s.lower()\<close> and \<^verbatim>\<open>s.upper()\<close>.\<close>

definition lower :: "string \<Rightarrow> string" where
  "lower s = map lower_char s"

definition upper :: "string \<Rightarrow> string" where
  "upper s = map upper_char s"

text \<open>The characters \<^verbatim>\<open>str.strip()\<close> removes: TAB, LF, VT, FF, CR, FS, GS, RS, US and space.\<close>

definition whitespace :: string where
  "whitespace = [CHR 0x09, CHR 0x0A, CHR 0x0B, CHR 0x0C, CHR 0x0D,
                 CHR 0x1C, CHR 0x1D, CHR 0x1E, CHR 0x1F, CHR 0x20]"

definition isspace :: "char \<Rightarrow> bool" where
  "isspace c = (c \<in> set whitespace)"

definition strip :: "string \<Rightarrow> string" where
  "strip s = rev (dropWhile isspace (rev (dropWhile isspace s)))"

text \<open>\<^verbatim>\<open>sub in s\<close> for two strings: \<open>sub\<close> occurs in \<open>s\<close> as a contiguous block.\<close>

definition py_in :: "string \<Rightarrow> string \<Rightarrow> bool" where
  "py_in sub s = sublist sub s"

text \<open>\<^verbatim>\<open>str(n)\<close> for an integer, as an f-string renders it.\<close>

fun str_nat :: "nat \<Rightarrow> string" where
  "str_nat n = (if n < 10 then [digits ! n] else str_nat (n div 10) @ [digits ! (n mod 10)])"

declare str_nat.simps [simp del]

definition str_int :: "int \<Rightarrow> string" where
  "str_int i = (if i < 0 then CHR ''-'' # str_nat (nat (- i)) else str_nat (nat i))"

subsection \<open>Floats\<close>

text \<open>
  \<open>Fin s m e\<close> is the number \<open>(-1)\<^sup>s \<sqdot> m \<sqdot> 2\<^sup>e\<close>. The results of the arithmetic
  below are in the canonical form of binary64: \<open>2\<^sup>5\<^sup>2 \<le> m < 2\<^sup>5\<^sup>3\<close> and
  \<open>-1074 \<le> e \<le> 971\<close>, or \<open>m < 2\<^sup>5\<^sup>2\<close> and \<open>e = -1074\<close> (subnormal numbers and zero).
\<close>

datatype pyfloat = Fin bool nat int | Inf bool | NaN

fun bit_length :: "nat \<Rightarrow> nat" where
  "bit_length n = (if n = 0 then 0 else Suc (bit_length (n div 2)))"

declare bit_length.simps [simp del]

text \<open>\<open>m / 2\<^sup>k\<close> rounded to the nearest integer, a tie to the even one.\<close>

definition round_half_even :: "nat \<Rightarrow> nat \<Rightarrow> nat" where
  "round_half_even m k =
     (let d = m div 2 ^ k; r = m mod 2 ^ k; h = 2 ^ (k - 1) in
      if k = 0 then m
      else if r < h then d
      else if h < r then d + 1
      else if even d then d else d + 1)"

text \<open>
  The binary64 value nearest to \<open>(-1)\<^sup>s \<sqdot> m \<sqdot> 2\<^sup>e\<close>: \<open>q\<close> is the exponent of the last
  mantissa bit kept (53 bits, or down to \<open>2\<^sup>-\<^sup>1\<^sup>0\<^sup>7\<^sup>4\<close> in the subnormal range); a
  mantissa rounded up to \<open>2\<^sup>5\<^sup>3\<close> is renormalised; beyond the largest exponent the result
  is an infinity.
\<close>

definition round_float :: "bool \<Rightarrow> nat \<Rightarrow> int \<Rightarrow> pyfloat" where
  "round_float s m e =
     (if m = 0 then Fin s 0 (- 1074)
      else
        let q = max (int (bit_length m) + e - 53) (- 1074);
            m1 = (if q \<le> e then m * 2 ^ nat (e - q) else round_half_even m (nat (q - e)));
            m2 = (if m1 = 2 ^ 53 then 2 ^ 52 else m1);
            q2 = (if m1 = 2 ^ 53 then q + 1 else q)
        in if 971 < q2 then Inf s else Fin s m2 q2)"

definition fneg :: "pyfloat \<Rightarrow> pyfloat" where
  "fneg x = (case x of Fin s m e \<Rightarrow> Fin (\<not> s) m e | Inf s \<Rightarrow> Inf (\<not> s) | NaN \<Rightarrow> NaN)"

definition signed :: "bool \<Rightarrow> nat \<Rightarrow> int" where
  "signed s m = (if s then - int m else int m)"

fun fadd :: "pyfloat \<Rightarrow> pyfloat \<Rightarrow> pyfloat" where
  "fadd NaN y = NaN"
| "fadd x NaN = NaN"
| "fadd (Inf s) (Inf t) = (if s = t then Inf s else NaN)"
| "fadd (Inf s) (Fin t n f) = Inf s"
| "fadd (Fin s m e) (Inf t) = Inf t"
| "fadd (Fin s m e) (Fin t n f) =
     (let g = min e f;
          v = signed s m * 2 ^ nat (e - g) + signed t n * 2 ^ nat (f - g)
      in if v = 0 then Fin (s \<and> t) 0 (- 1074) else round_float (v < 0) (nat \<bar>v\<bar>) g)"

text \<open>\<^verbatim>\<open>x - y\<close> and \<^verbatim>\<open>x * y\<close> on floats.\<close>

definition fsub :: "pyfloat \<Rightarrow> pyfloat \<Rightarrow> pyfloat" where
  "fsub x y = fadd x (fneg y)"

fun fmul :: "pyfloat \<Rightarrow> pyfloat \<Rightarrow> pyfloat" where
  "fmul NaN y = NaN"
| "fmul x NaN = NaN"
| "fmul (Inf s) (Inf t) = Inf (s \<noteq> t)"
| "fmul (Inf s) (Fin t n f) = (if n = 0 then NaN else Inf (s \<noteq> t))"
| "fmul (Fin s m e) (Inf t) = (if m = 0 then NaN else Inf (s \<noteq> t))"
| "fmul (Fin s m e) (Fin t n f) = round_float (s \<noteq> t) (m * n) (e + f)"

text \<open>The float of an integer literal or value (\<^verbatim>\<open>float(i)\<close>), before the range check.\<close>

definition float_of_int :: "int \<Rightarrow> pyfloat" where
  "float_of_int i = round_float (i < 0) (nat \<bar>i\<bar>) 0"

text \<open>The real number a finite float stands for (0 for the others: used on finite values only).\<close>

definition float_value :: "pyfloat \<Rightarrow> real" where
  "float_value x = (case x of
       Fin s m e \<Rightarrow> real_of_int (signed s m) * (if 0 \<le> e then 2 ^ nat e else 1 / 2 ^ nat (- e))
     | _ \<Rightarrow> 0)"

subsection \<open>JSON values and exceptions\<close>

datatype json =
    JNull
  | JBool bool
  | JInt int
  | JFloat pyfloat
  | JStr string
  | JArr "json list"
  | JObj "(string \<times> json) list"

datatype py_error =
    LiveCoinWatchError string
  | ValueError string
  | JSONDecodeError
  | ValidationError
  | AttributeError
  | TypeError
  | OverflowError
  | HTTPException int "string option"

text \<open>
  \<^verbatim>\<open>json.JSONDecodeError\<close> and pydantic's \<^verbatim>\<open>ValidationError\<close> are subclasses of
  \<^verbatim>\<open>ValueError\<close>: an \<^verbatim>\<open>except ValueError\<close> clause catches the three of them.
\<close>

definition is_ValueError :: "py_error \<Rightarrow> bool" where
  "is_ValueError e = (case e of ValueError _ \<Rightarrow> True | JSONDecodeError \<Rightarrow> True
                       | ValidationError \<Rightarrow> True | _ \<Rightarrow> False)"

text \<open>Truth value of an object, as \<^verbatim>\<open>if x:\<close> tests it.\<close>

definition truthy :: "json \<Rightarrow> bool" where
  "truthy v = (case v of
       JNull \<Rightarrow> False
     | JBool b \<Rightarrow> b
     | JInt i \<Rightarrow> i \<noteq> 0
     | JFloat x \<Rightarrow> (case x of Fin _ m _ \<Rightarrow> m \<noteq> 0 | _ \<Rightarrow> True)
     | JStr s \<Rightarrow> s \<noteq> []
     | JArr xs \<Rightarrow> xs \<noteq> []
     | JObj kvs \<Rightarrow> kvs \<noteq> [])"

text \<open>\<^verbatim>\<open>x.get(key, default)\<close>: only a dict has the method.\<close>

definition py_get :: "json \<Rightarrow> string \<Rightarrow> json \<Rightarrow> py_error + json" where
  "py_get x key dflt = (case x of
       JObj kvs \<Rightarrow> Inr (case map_of kvs key of Some v \<Rightarrow> v | None \<Rightarrow> dflt)
     | _ \<Rightarrow> Inl AttributeError)"

text \<open>\<^verbatim>\<open>x.lower()\<close>: only a string has the method.\<close>

definition py_lower :: "json \<Rightarrow> py_error + string" where
  "py_lower x = (case x of JStr s \<Rightarrow> Inr (lower s) | _ \<Rightarrow> Inl AttributeError)"

text \<open>
  The elements a \<^verbatim>\<open>for\<close> loop visits: the items of a list, the keys of a dict, the
  characters of a string; other values are not iterable.
\<close>

definition py_iter :: "json \<Rightarrow> py_error + json list" where
  "py_iter x = (case x of
       JArr xs \<Rightarrow> Inr xs
     | JObj kvs \<Rightarrow> Inr (map (\<lambda>kv. JStr (fst kv)) kvs)
     | JStr s \<Rightarrow> Inr (map (\<lambda>c. JStr [c]) s)
     | _ \<Rightarrow> Inl TypeError)"

text \<open>Sequencing of two steps of which the first may raise.\<close>

definition and_then :: "'e + 'a \<Rightarrow> ('a \<Rightarrow> 'e + 'b) \<Rightarrow> 'e + 'b" where
  "and_then r f = (case r of Inl e \<Rightarrow> Inl e | Inr x \<Rightarrow> f x)"

section \<open>The TTL cache (\<^verbatim>\<open>app/utils/cache.py\<close>)\<close>

record entry =
  entry_value :: json
  entry_timestamp :: real

record SimpleCache =
  ttl :: int
  entries :: "string \<rightharpoonup> entry"

text \<open>
  \<^verbatim>\<open>SimpleCache.__init__\<close>: \<^verbatim>\<open>ttl or settings.cache_ttl_seconds\<close> takes the setting when
  the argument is \<^verbatim>\<open>None\<close> or 0.
\<close>

definition new_cache :: "int option \<Rightarrow> int \<Rightarrow> SimpleCache" where
  "new_cache ttl_arg cache_ttl_seconds =
     \<lparr>ttl = (case ttl_arg of
               None \<Rightarrow> cache_ttl_seconds
             | Some t \<Rightarrow> if t = 0 then cache_ttl_seconds else t),
      entries = Map.empty\<rparr>"

text \<open>
  \<^verbatim>\<open>SimpleCache.get\<close>; \<open>now\<close> is the reading of \<^verbatim>\<open>time.time()\<close>. The result is the value
  returned (\<open>JNull\<close> for \<^verbatim>\<open>None\<close>) and the cache afterwards.
\<close>

definition cache_get :: "real \<Rightarrow> SimpleCache \<Rightarrow> string \<Rightarrow> json \<times> SimpleCache" where
  "cache_get now c key =
     (case entries c key of
        None \<Rightarrow> (JNull, c)
      | Some e \<Rightarrow>
          if now - entry_timestamp e > of_int (ttl c)
          then (JNull, c\<lparr>entries := (entries c)(key := None)\<rparr>)
          else (entry_value e, c))"

text \<open>\<^verbatim>\<open>SimpleCache.set\<close>.\<close>

definition cache_set :: "real \<Rightarrow> SimpleCache \<Rightarrow> string \<Rightarrow> json \<Rightarrow> SimpleCache" where
  "cache_set now c key v =
     c\<lparr>entries := (entries c)(key \<mapsto> \<lparr>entry_value = v, entry_timestamp = now\<rparr>)\<rparr>"

text \<open>\<^verbatim>\<open>SimpleCache.clear\<close>.\<close>

definition cache_clear :: "SimpleCache \<Rightarrow> SimpleCache" where
  "cache_clear c = c\<lparr>entries := Map.empty\<rparr>"

text \<open>\<^verbatim>\<open>SimpleCache.size\<close>: the number of keys stored, expired or not.\<close>

definition cache_size :: "SimpleCache \<Rightarrow> nat" where
  "cache_size c = card (dom (entries c))"

section \<open>The gateway (\<^verbatim>\<open>app/services/livecoinwatch.py\<close>)\<close>

text \<open>
  Library behaviour the repository relies on but does not define: \<^verbatim>\<open>str()\<close> of a parsed
  JSON value that is not a string, and pydantic's conversions of a value that is not yet
  of the field's type. The functions below take them as a parameter; the theorems hold for
  every choice.
\<close>

record runtime =
  str_of :: "json \<Rightarrow> string"
  lax_float :: "json \<Rightarrow> pyfloat option"
  lax_int :: "json \<Rightarrow> int option"

text \<open>
  What one POST to the provider comes back with: a timeout, another transport failure
  (with the text of the exception), or a response with its status code and body. The body
  is empty, or not a JSON document, or a JSON document.
\<close>

datatype body = NoContent | NotJson | Json json

datatype http_outcome = TimeoutException | RequestError string | Response int body

record upstream =
  outcome :: http_outcome
  elapsed :: real

type_synonym request = "string \<times> json"

text \<open>
  The state the service runs in: the process-wide cache, the clock that \<^verbatim>\<open>time.time()\<close>
  reads, and the requests posted to the provider so far.
\<close>

record world =
  cache :: SimpleCache
  clock :: real
  sent :: "request list"

definition global_get :: "world \<Rightarrow> string \<Rightarrow> json \<times> world" where
  "global_get w key = (let (v, c) = cache_get (clock w) (cache w) key in (v, w\<lparr>cache := c\<rparr>))"

definition global_set :: "world \<Rightarrow> string \<Rightarrow> json \<Rightarrow> world" where
  "global_set w key v = w\<lparr>cache := cache_set (clock w) (cache w) key v\<rparr>"

definition response_json :: "body \<Rightarrow> py_error + json" where
  "response_json b = (case b of Json j \<Rightarrow> Inr j | _ \<Rightarrow> Inl JSONDecodeError)"

definition py_str :: "runtime \<Rightarrow> json \<Rightarrow> string" where
  "py_str rt v = (case v of JStr s \<Rightarrow> s | _ \<Rightarrow> str_of rt v)"

text \<open>The two messages built by f-strings.\<close>

definition api_error_message :: "int \<Rightarrow> string \<Rightarrow> string" where
  "api_error_message status_code error_msg =
     ''API error ('' @ str_int status_code @ ''): '' @ error_msg"

definition not_found_message :: "string \<Rightarrow> string" where
  "not_found_message symbol =
     ''Cryptocurrency '' @ [CHR 0x27] @ symbol @ [CHR 0x27] @ '' not found''"

text \<open>The branches of \<^verbatim>\<open>_make_request\<close> on what the transport delivered.\<close>

definition classify :: "runtime \<Rightarrow> http_outcome \<Rightarrow> py_error + json" where
  "classify rt out = (case out of
       TimeoutException \<Rightarrow> Inl (LiveCoinWatchError ''Request timeout - API may be unavailable'')
     | RequestError msg \<Rightarrow> Inl (LiveCoinWatchError (''Network error: '' @ msg))
     | Response status_code content \<Rightarrow>
         if status_code = 200 then response_json content
         else if status_code = 401 then
           Inl (LiveCoinWatchError ''Invalid API key or unauthorized access'')
         else if status_code = 404 then Inl (LiveCoinWatchError ''Endpoint not found'')
         else if status_code = 429 then Inl (LiveCoinWatchError ''Rate limit exceeded'')
         else
           and_then (if content \<noteq> NoContent then response_json content else Inr (JObj []))
             (\<lambda>error_data.
           and_then (py_get error_data ''error'' (JObj []))
             (\<lambda>err.
           and_then (py_get err ''description'' (JStr ''Unknown error''))
             (\<lambda>error_msg.
           Inl (LiveCoinWatchError (api_error_message status_code (py_str rt error_msg)))))))"

text \<open>\<^verbatim>\<open>_make_request\<close>: the request is posted, time passes, the outcome is classified.\<close>

definition make_request ::
  "runtime \<Rightarrow> upstream \<Rightarrow> world \<Rightarrow> string \<Rightarrow> json \<Rightarrow> (py_error + json) \<times> world" where
  "make_request rt up w endpoint data =
     (classify rt (outcome up),
      w\<lparr>clock := clock w + elapsed up, sent := sent w @ [(endpoint, data)]\<rparr>)"

definition coin_key :: "string \<Rightarrow> string \<Rightarrow> string" where
  "coin_key symbol currency = ''coin_'' @ symbol @ ''_'' @ currency"

definition coins_list_key :: "string \<Rightarrow> int \<Rightarrow> int \<Rightarrow> string" where
  "coins_list_key currency limit offset =
     ''coins_list_'' @ currency @ ''_'' @ str_int limit @ ''_'' @ str_int offset"

definition search_key :: "string \<Rightarrow> string \<Rightarrow> int \<Rightarrow> string" where
  "search_key query currency limit =
     ''search_'' @ query @ ''_'' @ currency @ ''_'' @ str_int limit"

definition market_overview_key :: "string \<Rightarrow> string" where
  "market_overview_key currency = ''market_overview_'' @ currency"

definition single_request :: "string \<Rightarrow> string \<Rightarrow> request" where
  "single_request symbol currency =
     (''coins/single'',
      JObj [(''currency'', JStr currency), (''code'', JStr symbol), (''meta'', JBool True)])"

definition list_request :: "string \<Rightarrow> int \<Rightarrow> int \<Rightarrow> request" where
  "list_request currency limit offset =
     (''coins/list'',
      JObj [(''currency'', JStr currency), (''sort'', JStr ''rank''),
            (''order'', JStr ''ascending''), (''offset'', JInt offset),
            (''limit'', JInt limit), (''meta'', JBool False)])"

definition overview_request :: "string \<Rightarrow> request" where
  "overview_request currency = (''overview'', JObj [(''currency'', JStr currency)])"

text \<open>
  \<^verbatim>\<open>get_single_coin\<close>. A failure whose message contains \<^verbatim>\<open>not found\<close> is raised again
  with the symbol in the message; any other exception passes through.
\<close>

definition get_single_coin ::
  "runtime \<Rightarrow> upstream \<Rightarrow> world \<Rightarrow> string \<Rightarrow> string \<Rightarrow> (py_error + json) \<times> world" where
  "get_single_coin rt up w symbol currency =
     (let cache_key = coin_key symbol currency;
          (cached_data, w1) = global_get w cache_key
      in if truthy cached_data then (Inr cached_data, w1)
         else
           let (r, w2) = make_request rt up w1 (fst (single_request symbol currency))
                           (snd (single_request symbol currency))
           in case r of
                Inr result \<Rightarrow> (Inr result, global_set w2 cache_key result)
              | Inl (LiveCoinWatchError msg) \<Rightarrow>
                  if py_in ''not found'' (lower msg)
                  then (Inl (LiveCoinWatchError (not_found_message symbol)), w2)
                  else (Inl (LiveCoinWatchError msg), w2)
              | Inl e \<Rightarrow> (Inl e, w2))"

text \<open>\<^verbatim>\<open>get_coins_list\<close>.\<close>

definition get_coins_list ::
  "runtime \<Rightarrow> upstream \<Rightarrow> world \<Rightarrow> string \<Rightarrow> int \<Rightarrow> int \<Rightarrow> (py_error + json) \<times> world" where
  "get_coins_list rt up w currency limit offset =
     (let cache_key = coins_list_key currency limit offset;
          (cached_data, w1) = global_get w cache_key
      in if truthy cached_data then (Inr cached_data, w1)
         else
           let (r, w2) = make_request rt up w1 (fst (list_request currency limit offset))
                           (snd (list_request currency limit offset))
           in case r of
                Inr result \<Rightarrow> (Inr result, global_set w2 cache_key result)
              | Inl e \<Rightarrow> (Inl e, w2))"

text \<open>
  The test of the search loop on one entry: the second operand of \<^verbatim>\<open>or\<close> is evaluated
  only when the first is false.
\<close>

definition coin_matches :: "string \<Rightarrow> json \<Rightarrow> py_error + bool" where
  "coin_matches query_lower coin =
     and_then (py_get coin ''name'' (JStr [])) (\<lambda>name.
     and_then (py_lower name) (\<lambda>name_lower.
       if py_in query_lower name_lower then Inr True
       else
         and_then (py_get coin ''code'' (JStr [])) (\<lambda>code.
         and_then (py_lower code) (\<lambda>code_lower.
           Inr (py_in query_lower code_lower)))))"

text \<open>
  The search loop, \<open>matching_coins\<close> being the list built so far: a match is appended and
  the loop breaks once the list has \<open>limit\<close> elements or more.
\<close>

fun match_loop :: "string \<Rightarrow> int \<Rightarrow> json list \<Rightarrow> json list \<Rightarrow> py_error + json list" where
  "match_loop query_lower limit [] matching_coins = Inr matching_coins"
| "match_loop query_lower limit (coin # rest) matching_coins =
     (case coin_matches query_lower coin of
        Inl e \<Rightarrow> Inl e
      | Inr True \<Rightarrow>
          if int (length (matching_coins @ [coin])) \<ge> limit then Inr (matching_coins @ [coin])
          else match_loop query_lower limit rest (matching_coins @ [coin])
      | Inr False \<Rightarrow> match_loop query_lower limit rest matching_coins)"

text \<open>\<^verbatim>\<open>search_coins\<close>.\<close>

definition search_coins ::
  "runtime \<Rightarrow> upstream \<Rightarrow> world \<Rightarrow> string \<Rightarrow> string \<Rightarrow> int \<Rightarrow> (py_error + json) \<times> world" where
  "search_coins rt up w query currency limit =
     (let cache_key = search_key query currency limit;
          (cached_data, w1) = global_get w cache_key
      in if truthy cached_data then (Inr cached_data, w1)
         else
           let (r, w2) = get_coins_list rt up w1 currency 200 0
           in case and_then r (\<lambda>coins_data.
                   and_then (py_iter coins_data) (\<lambda>coins.
                     match_loop (lower query) limit coins [])) of
                Inl e \<Rightarrow> (Inl e, w2)
              | Inr matching_coins \<Rightarrow>
                  (Inr (JArr matching_coins), global_set w2 cache_key (JArr matching_coins)))"

text \<open>\<^verbatim>\<open>get_market_overview\<close>.\<close>

definition get_market_overview ::
  "runtime \<Rightarrow> upstream \<Rightarrow> world \<Rightarrow> string \<Rightarrow> (py_error + json) \<times> world" where
  "get_market_overview rt up w currency =
     (let cache_key = market_overview_key currency;
          (cached_data, w1) = global_get w cache_key
      in if truthy cached_data then (Inr cached_data, w1)
         else
           let (r, w2) = make_request rt up w1 (fst (overview_request currency))
                           (snd (overview_request currency))
           in case r of
                Inr result \<Rightarrow> (Inr result, global_set w2 cache_key result)
              | Inl e \<Rightarrow> (Inl e, w2))"

text \<open>The four operations of the gateway with their parameters, and a call of one.\<close>

datatype gateway_op =
    GetSingleCoin string string
  | GetCoinsList string int int
  | SearchCoins string string int
  | GetMarketOverview string

fun run :: "runtime \<Rightarrow> upstream \<Rightarrow> world \<Rightarrow> gateway_op \<Rightarrow> (py_error + json) \<times> world" where
  "run rt up w (GetSingleCoin symbol currency) = get_single_coin rt up w symbol currency"
| "run rt up w (GetCoinsList currency limit offset) = get_coins_list rt up w currency limit offset"
| "run rt up w (SearchCoins query currency limit) = search_coins rt up w query currency limit"
| "run rt up w (GetMarketOverview currency) = get_market_overview rt up w currency"

text \<open>The cache key an operation reads first and writes its result under.\<close>

fun key_of :: "gateway_op \<Rightarrow> string" where
  "key_of (GetSingleCoin symbol currency) = coin_key symbol currency"
| "key_of (GetCoinsList currency limit offset) = coins_list_key currency limit offset"
| "key_of (SearchCoins query currency limit) = search_key query currency limit"
| "key_of (GetMarketOverview currency) = market_overview_key currency"

text \<open>The request an operation posts to the provider when it has to.\<close>

fun request_of :: "gateway_op \<Rightarrow> request" where
  "request_of (GetSingleCoin symbol currency) = single_request symbol currency"
| "request_of (GetCoinsList currency limit offset) = list_request currency limit offset"
| "request_of (SearchCoins query currency limit) = list_request currency 200 0"
| "request_of (GetMarketOverview currency) = overview_request currency"

section \<open>Validation (\<^verbatim>\<open>app/utils/validators.py\<close>)\<close>

text \<open>
  \<^verbatim>\<open>re.match(r'^[A-Z0-9]+$', s)\<close>: one or more characters of the class up to the end of
  the string, or up to a newline that ends the string.
\<close>

definition match_alnum_upper :: "string \<Rightarrow> bool" where
  "match_alnum_upper s =
     (let t = (if s \<noteq> [] \<and> last s = CHR 0x0A then butlast s else s)
      in t \<noteq> [] \<and> list_all (\<lambda>c. c \<in> set (ascii_uppercase @ digits)) t)"

definition validate_crypto_symbol :: "string \<Rightarrow> py_error + string" where
  "validate_crypto_symbol symbol =
     (if symbol = [] then Inl (ValueError ''Symbol must be a non-empty string'')
      else
        let symbol = upper (strip symbol) in
        if \<not> match_alnum_upper symbol
        then Inl (ValueError ''Symbol must contain only letters and numbers'')
        else if length symbol < 1 \<or> length symbol > 10
        then Inl (ValueError ''Symbol must be between 1 and 10 characters'')
        else Inr symbol)"

definition supported_currencies :: "string list" where
  "supported_currencies =
     [''USD'', ''EUR'', ''GBP'', ''JPY'', ''CAD'', ''AUD'', ''CHF'', ''CNY'', ''KRW'', ''INR'']"

text \<open>
  The message of the last error goes on with the supported currencies in the iteration
  order of a Python set, which is not fixed; the model stops before that list.
\<close>

definition validate_currency :: "string \<Rightarrow> py_error + string" where
  "validate_currency currency =
     (if currency = [] then Inl (ValueError ''Currency must be a non-empty string'')
      else
        let currency = upper (strip currency) in
        if currency \<notin> set supported_currencies
        then Inl (ValueError (''Currency '' @ [CHR 0x27] @ currency @ [CHR 0x27] @ '' not supported.''))
        else Inr currency)"

definition validate_limit :: "int \<Rightarrow> int \<Rightarrow> py_error + int" where
  "validate_limit limit max_limit =
     (if limit < 1 then Inl (ValueError ''Limit must be at least 1'')
      else if limit > max_limit
      then Inl (ValueError (''Limit cannot exceed '' @ str_int max_limit))
      else Inr limit)"

section \<open>Response models (\<^verbatim>\<open>app/models.py\<close>)\<close>

text \<open>
  The fields of the single-asset model carry the prefix \<open>resp_\<close>, those of a list item
  \<open>item_\<close>, and \<open>data\<close> and \<open>currency\<close> of the list model \<open>list_\<close>.
\<close>

datatype Currency = USD | EUR | GBP | JPY | CAD | AUD

fun currency_value :: "Currency \<Rightarrow> string" where
  "currency_value USD = ''USD''"
| "currency_value EUR = ''EUR''"
| "currency_value GBP = ''GBP''"
| "currency_value JPY = ''JPY''"
| "currency_value CAD = ''CAD''"
| "currency_value AUD = ''AUD''"

record CryptocurrencyResponse =
  resp_symbol :: string
  resp_name :: string
  resp_price :: pyfloat
  resp_percent_change_24h :: pyfloat
  resp_volume_24h :: pyfloat
  resp_market_cap :: "pyfloat option"
  resp_rank :: "int option"

record CryptocurrencyListItem =
  item_symbol :: string
  item_name :: string
  item_price :: pyfloat
  item_percent_change_24h :: pyfloat
  item_rank :: "int option"

record CryptocurrencyListResponse =
  list_data :: "CryptocurrencyListItem list"
  total_count :: int
  list_currency :: string

record MarketOverview =
  total_market_cap :: pyfloat
  total_volume_24h :: pyfloat
  bitcoin_dominance :: "pyfloat option"
  active_cryptocurrencies :: "int option"

text \<open>
  Validation of one field by pydantic: a value already of the field's type is taken as
  it is; a string field takes nothing else; a numeric field hands any other value to the
  library's conversion; an optional field takes \<^verbatim>\<open>None\<close>.
\<close>

definition pyd_str :: "json \<Rightarrow> string option" where
  "pyd_str v = (case v of JStr s \<Rightarrow> Some s | _ \<Rightarrow> None)"

definition pyd_float :: "runtime \<Rightarrow> json \<Rightarrow> pyfloat option" where
  "pyd_float rt v = (case v of JFloat x \<Rightarrow> Some x | _ \<Rightarrow> lax_float rt v)"

definition pyd_int :: "runtime \<Rightarrow> json \<Rightarrow> int option" where
  "pyd_int rt v = (case v of JInt i \<Rightarrow> Some i | _ \<Rightarrow> lax_int rt v)"

definition pyd_optional :: "(json \<Rightarrow> 'a option) \<Rightarrow> json \<Rightarrow> 'a option option" where
  "pyd_optional f v = (case v of JNull \<Rightarrow> Some None | _ \<Rightarrow> map_option Some (f v))"

text \<open>The constructors of the models: every field is validated, any failure raises.\<close>

definition CryptocurrencyResponse_init ::
  "runtime \<Rightarrow> json \<Rightarrow> json \<Rightarrow> json \<Rightarrow> json \<Rightarrow> json \<Rightarrow> json \<Rightarrow> json
     \<Rightarrow> py_error + CryptocurrencyResponse" where
  "CryptocurrencyResponse_init rt symbol_v name_v price_v change_24h_v volume_v cap_v rank_v =
     (case (pyd_str symbol_v, pyd_str name_v, pyd_float rt price_v, pyd_float rt change_24h_v,
            pyd_float rt volume_v, pyd_optional (pyd_float rt) cap_v,
            pyd_optional (pyd_int rt) rank_v) of
        (Some s, Some n, Some p, Some c, Some v, Some m, Some r) \<Rightarrow>
          Inr \<lparr>resp_symbol = s, resp_name = n, resp_price = p, resp_percent_change_24h = c,
               resp_volume_24h = v, resp_market_cap = m, resp_rank = r\<rparr>
      | _ \<Rightarrow> Inl ValidationError)"

definition CryptocurrencyListItem_init ::
  "runtime \<Rightarrow> json \<Rightarrow> json \<Rightarrow> json \<Rightarrow> json \<Rightarrow> json \<Rightarrow> py_error + CryptocurrencyListItem" where
  "CryptocurrencyListItem_init rt symbol_v name_v price_v change_v rank_v =
     (case (pyd_str symbol_v, pyd_str name_v, pyd_float rt price_v, pyd_float rt change_v,
            pyd_optional (pyd_int rt) rank_v) of
        (Some s, Some n, Some p, Some c, Some r) \<Rightarrow>
          Inr \<lparr>item_symbol = s, item_name = n, item_price = p, item_percent_change_24h = c,
               item_rank = r\<rparr>
      | _ \<Rightarrow> Inl ValidationError)"

definition MarketOverview_init ::
  "runtime \<Rightarrow> json \<Rightarrow> json \<Rightarrow> json \<Rightarrow> json \<Rightarrow> py_error + MarketOverview" where
  "MarketOverview_init rt cap_v volume_v dominance_v active_v =
     (case (pyd_float rt cap_v, pyd_float rt volume_v, pyd_optional (pyd_float rt) dominance_v,
            pyd_optional (pyd_int rt) active_v) of
        (Some c, Some v, Some d, Some a) \<Rightarrow>
          Inr \<lparr>total_market_cap = c, total_volume_24h = v, bitcoin_dominance = d,
               active_cryptocurrencies = a\<rparr>
      | _ \<Rightarrow> Inl ValidationError)"

section \<open>The routes (\<^verbatim>\<open>app/main.py\<close>)\<close>

text \<open>The float literals \<^verbatim>\<open>0.0\<close> and \<^verbatim>\<open>1.0\<close>, and the float of the integer \<^verbatim>\<open>100\<close>.\<close>

definition float_0_0 :: pyfloat where
  "float_0_0 = Fin False 0 (- 1074)"

definition float_1_0 :: pyfloat where
  "float_1_0 = Fin False (2 ^ 52) (- 52)"

definition float_100 :: pyfloat where
  "float_100 = Fin False (25 * 2 ^ 48) (- 46)"

text \<open>
  The left operand of \<^verbatim>\<open>day - 1.0\<close> as a float: a float is one, an integer or a boolean
  is converted (an integer beyond the range of floats raises), anything else is a type
  error.
\<close>

definition float_operand :: "json \<Rightarrow> py_error + pyfloat" where
  "float_operand v = (case v of
       JFloat x \<Rightarrow> Inr x
     | JInt i \<Rightarrow> (case float_of_int i of Inf _ \<Rightarrow> Inl OverflowError | x \<Rightarrow> Inr x)
     | JBool b \<Rightarrow> Inr (if b then float_1_0 else float_0_0)
     | _ \<Rightarrow> Inl TypeError)"

text \<open>\<^verbatim>\<open>(day - 1.0) * 100\<close>.\<close>

definition percent_change :: "json \<Rightarrow> py_error + pyfloat" where
  "percent_change day =
     and_then (float_operand day) (\<lambda>d. Inr (fmul (fsub d float_1_0) float_100))"

text \<open>\<^verbatim>\<open>except ValueError as e: raise HTTPException(status_code=400, detail=str(e))\<close>.\<close>

definition except_ValueError :: "py_error + 'a \<Rightarrow> py_error + 'a" where
  "except_ValueError r = (case r of
       Inl e \<Rightarrow>
         if is_ValueError e
         then Inl (HTTPException 400 (case e of ValueError msg \<Rightarrow> Some msg | _ \<Rightarrow> None))
         else Inl e
     | Inr x \<Rightarrow> Inr x)"

text \<open>The body of \<^verbatim>\<open>get_cryptocurrency\<close> after the fetch: the response built from \<open>data\<close>.\<close>

definition single_response ::
  "runtime \<Rightarrow> string \<Rightarrow> json \<Rightarrow> py_error + CryptocurrencyResponse" where
  "single_response rt validated_symbol data =
     and_then (py_get data ''symbol'' (JStr validated_symbol)) (\<lambda>symbol_v.
     and_then (py_get data ''name'' (JStr [])) (\<lambda>name_v.
     and_then (py_get data ''rate'' (JFloat float_0_0)) (\<lambda>price_v.
     and_then (py_get data ''delta'' (JObj [])) (\<lambda>delta.
     and_then (py_get delta ''day'' (JFloat float_1_0)) (\<lambda>day.
     and_then (percent_change day) (\<lambda>change.
     and_then (py_get data ''volume'' (JFloat float_0_0)) (\<lambda>volume_v.
     and_then (py_get data ''cap'' JNull) (\<lambda>cap_v.
     and_then (py_get data ''rank'' JNull) (\<lambda>rank_v.
       CryptocurrencyResponse_init rt symbol_v name_v price_v (JFloat change) volume_v
         cap_v rank_v)))))))))"

definition get_cryptocurrency ::
  "runtime \<Rightarrow> upstream \<Rightarrow> world \<Rightarrow> string \<Rightarrow> Currency
     \<Rightarrow> (py_error + CryptocurrencyResponse) \<times> world" where
  "get_cryptocurrency rt up w symbol currency =
     (case validate_crypto_symbol symbol of
        Inl e \<Rightarrow> (except_ValueError (Inl e), w)
      | Inr validated_symbol \<Rightarrow>
     (case validate_currency (currency_value currency) of
        Inl e \<Rightarrow> (except_ValueError (Inl e), w)
      | Inr validated_currency \<Rightarrow>
          let (r, w1) = get_single_coin rt up w validated_symbol validated_currency
          in (except_ValueError (and_then r (single_response rt validated_symbol)), w1)))"

text \<open>The body of the transformation loop of the two list routes, and the loop.\<close>

definition list_item :: "runtime \<Rightarrow> json \<Rightarrow> py_error + CryptocurrencyListItem" where
  "list_item rt item =
     and_then (py_get item ''code'' (JStr [])) (\<lambda>symbol_v.
     and_then (py_get item ''name'' (JStr [])) (\<lambda>name_v.
     and_then (py_get item ''rate'' (JFloat float_0_0)) (\<lambda>price_v.
     and_then (py_get item ''delta'' (JObj [])) (\<lambda>delta.
     and_then (py_get delta ''day'' (JFloat float_1_0)) (\<lambda>day.
     and_then (percent_change day) (\<lambda>change.
     and_then (py_get item ''rank'' JNull) (\<lambda>rank_v.
       CryptocurrencyListItem_init rt symbol_v name_v price_v (JFloat change) rank_v)))))))"

fun transform ::
  "runtime \<Rightarrow> json list \<Rightarrow> CryptocurrencyListItem list \<Rightarrow> py_error + CryptocurrencyListItem list"
  where
  "transform rt [] crypto_items = Inr crypto_items"
| "transform rt (item # rest) crypto_items =
     and_then (list_item rt item) (\<lambda>crypto_item. transform rt rest (crypto_items @ [crypto_item]))"

definition list_response ::
  "runtime \<Rightarrow> string \<Rightarrow> json \<Rightarrow> py_error + CryptocurrencyListResponse" where
  "list_response rt validated_currency data =
     and_then (py_iter data) (\<lambda>items.
     and_then (transform rt items []) (\<lambda>crypto_items.
       Inr \<lparr>list_data = crypto_items, total_count = int (length crypto_items),
            list_currency = validated_currency\<rparr>))"

definition get_cryptocurrencies ::
  "runtime \<Rightarrow> upstream \<Rightarrow> world \<Rightarrow> int \<Rightarrow> int \<Rightarrow> Currency
     \<Rightarrow> (py_error + CryptocurrencyListResponse) \<times> world" where
  "get_cryptocurrencies rt up w limit offset currency =
     (case validate_limit limit 100 of
        Inl e \<Rightarrow> (except_ValueError (Inl e), w)
      | Inr validated_limit \<Rightarrow>
     (case validate_currency (currency_value currency) of
        Inl e \<Rightarrow> (except_ValueError (Inl e), w)
      | Inr validated_currency \<Rightarrow>
          let (r, w1) = get_coins_list rt up w validated_currency validated_limit offset
          in (except_ValueError (and_then r (list_response rt validated_currency)), w1)))"

definition search_cryptocurrencies ::
  "runtime \<Rightarrow> upstream \<Rightarrow> world \<Rightarrow> string \<Rightarrow> int \<Rightarrow> Currency
     \<Rightarrow> (py_error + CryptocurrencyListResponse) \<times> world" where
  "search_cryptocurrencies rt up w query limit currency =
     (case validate_limit limit 50 of
        Inl e \<Rightarrow> (except_ValueError (Inl e), w)
      | Inr validated_limit \<Rightarrow>
     (case validate_currency (currency_value currency) of
        Inl e \<Rightarrow> (except_ValueError (Inl e), w)
      | Inr validated_currency \<Rightarrow>
          let (r, w1) = search_coins rt up w query validated_currency validated_limit
          in (except_ValueError (and_then r (list_response rt validated_currency)), w1)))"

definition overview_response :: "runtime \<Rightarrow> json \<Rightarrow> py_error + MarketOverview" where
  "overview_response rt data =
     and_then (py_get data ''cap'' (JFloat float_0_0)) (\<lambda>cap_v.
     and_then (py_get data ''volume'' (JFloat float_0_0)) (\<lambda>volume_v.
     and_then (py_get data ''btcDominance'' JNull) (\<lambda>dominance_v.
     and_then (py_get data ''liquidity'' JNull) (\<lambda>active_v.
       MarketOverview_init rt cap_v volume_v dominance_v active_v))))"

definition get_market_overview_route ::
  "runtime \<Rightarrow> upstream \<Rightarrow> world \<Rightarrow> Currency \<Rightarrow> (py_error + MarketOverview) \<times> world" where
  "get_market_overview_route rt up w currency =
     (case validate_currency (currency_value currency) of
        Inl e \<Rightarrow> (except_ValueError (Inl e), w)
      | Inr validated_currency \<Rightarrow>
          let (r, w1) = get_market_overview rt up w validated_currency
          in (except_ValueError (and_then r (overview_response rt)), w1))"

text \<open>
  \<^verbatim>\<open>livecoinwatch_exception_handler\<close>: the status code chosen for a
  \<^verbatim>\<open>LiveCoinWatchError\<close> with message \<open>msg\<close>.
\<close>

definition livecoinwatch_exception_handler :: "string \<Rightarrow> int" where
  "livecoinwatch_exception_handler msg =
     (if py_in ''not found'' (lower msg) then 404
      else if py_in ''unauthorized'' (lower msg) then 401
      else if py_in ''rate limit'' (lower msg) then 429
      else 502)"

text \<open>
  The status of the HTTP response when an exception leaves a route: the two registered
  handlers, the status carried by an \<^verbatim>\<open>HTTPException\<close>, and 500 for an exception nothing
  handles. A route that returns answers 200.
\<close>

definition error_status :: "py_error \<Rightarrow> int" where
  "error_status e = (case e of
       LiveCoinWatchError msg \<Rightarrow> livecoinwatch_exception_handler msg
     | HTTPException status_code _ \<Rightarrow> status_code
     | _ \<Rightarrow> if is_ValueError e then 400 else 500)"

definition http_status :: "py_error + 'a \<Rightarrow> int" where
  "http_status r = (case r of Inl e \<Rightarrow> error_status e | Inr _ \<Rightarrow> 200)"

text \<open>
  The four data routes with their parameters, and the status a request to one is answered
  with. The bounds declared with \<^verbatim>\<open>Query(...)\<close> are checked by the framework before the
  route runs (status 422). The serialisation of a returned model is the framework's and is
  not modelled.
\<close>

datatype route =
    Crypto string Currency
  | CryptoList int int Currency
  | Search string int Currency
  | Market Currency

fun serve :: "runtime \<Rightarrow> upstream \<Rightarrow> world \<Rightarrow> route \<Rightarrow> int \<times> world" where
  "serve rt up w (Crypto symbol currency) =
     (let (r, w1) = get_cryptocurrency rt up w symbol currency in (http_status r, w1))"
| "serve rt up w (CryptoList limit offset currency) =
     (if limit < 1 \<or> 100 < limit \<or> offset < 0 then (422, w)
      else let (r, w1) = get_cryptocurrencies rt up w limit offset currency in (http_status r, w1))"
| "serve rt up w (Search query limit currency) =
     (if length query < 1 \<or> limit < 1 \<or> 50 < limit then (422, w)
      else let (r, w1) = search_cryptocurrencies rt up w query limit currency
           in (http_status r, w1))"
| "serve rt up w (Market currency) =
     (let (r, w1) = get_market_overview_route rt up w currency in (http_status r, w1))"

section \<open>Notions used to state the properties\<close>

text \<open>
  The cache answers \<open>key\<close> with the truthy value \<open>v\<close>: an entry is stored under \<open>key\<close>,
  it has not expired at the present reading of the clock, and its value is \<open>v\<close>.
\<close>

definition hit :: "world \<Rightarrow> string \<Rightarrow> json \<Rightarrow> bool" where
  "hit w k v = (\<exists>e. entries (cache w) k = Some e \<and> entry_value e = v \<and> truthy v \<and>
      clock w - entry_timestamp e \<le> of_int (ttl (cache w)))"

text \<open>The member \<open>key\<close> of a JSON object, if \<open>x\<close> is an object that has it.\<close>

definition json_field :: "json \<Rightarrow> string \<Rightarrow> json option" where
  "json_field x key = (case x of JObj kvs \<Rightarrow> map_of kvs key | _ \<Rightarrow> None)"




text \<open>
  The description an error response of the provider carries, as \<^verbatim>\<open>_make_request\<close> finds
  it: \<^verbatim>\<open>Unknown error\<close> for an empty body and for an object without \<open>error\<close> or without
  \<open>error.description\<close>, the description when it is a string. No description is defined for
  a body of another shape.
\<close>

definition error_description :: "body \<Rightarrow> string option" where
  "error_description b = (case b of
       NoContent \<Rightarrow> Some ''Unknown error''
     | NotJson \<Rightarrow> None
     | Json j \<Rightarrow> (case j of
         JObj kvs \<Rightarrow> (case map_of kvs ''error'' of
             None \<Rightarrow> Some ''Unknown error''
           | Some (JObj ekvs) \<Rightarrow> (case map_of ekvs ''description'' of
                 None \<Rightarrow> Some ''Unknown error''
               | Some (JStr d) \<Rightarrow> Some d
               | Some _ \<Rightarrow> None)
           | Some _ \<Rightarrow> None)
       | _ \<Rightarrow> None))"

text \<open>The normal form of a symbol in the words of the specification: trimmed and uppercased.\<close>

definition normalize :: "string \<Rightarrow> string" where
  "normalize s = upper (strip s)"

subsection \<open>Concrete data\<close>

text \<open>
  A runtime that converts nothing (no value below needs a conversion, so what is
  evaluated with it holds with every runtime), the state of a process that has just
  started with the default TTL of 300 seconds, the payload of the end-to-end scenario of the specification
  (\<open>rate\<close> 45000.5, \<open>volume\<close> 2.5e10, \<open>cap\<close> 8.5e11, \<open>delta.day\<close> 0.975, each as the
  binary64 value nearest to it), three more listing entries, and two behaviours of the
  provider.
\<close>

definition basic_runtime :: runtime where
  "basic_runtime = \<lparr>str_of = (\<lambda>v. []), lax_float = (\<lambda>v. None), lax_int = (\<lambda>v. None)\<rparr>"

definition fresh_world :: world where
  "fresh_world = \<lparr>cache = \<lparr>ttl = 300, entries = Map.empty\<rparr>, clock = 0, sent = []\<rparr>"

definition float_0_975 :: pyfloat where
  "float_0_975 = Fin False 8782019273372467 (- 53)"

definition bitcoin :: json where
  "bitcoin = JObj [(''code'', JStr ''BTC''), (''name'', JStr ''Bitcoin''),
     (''rate'', JFloat (Fin False 6184821625716736 (- 37))),
     (''volume'', JFloat (Fin False 6553600000000000 (- 18))),
     (''cap'', JFloat (Fin False 6963200000000000 (- 13))),
     (''rank'', JInt 1),
     (''delta'', JObj [(''day'', JFloat float_0_975)])]"

definition ethereum :: json where
  "ethereum = JObj [(''code'', JStr ''ETH''), (''name'', JStr ''Ethereum''), (''rank'', JInt 2)]"

definition bitcoin_cash :: json where
  "bitcoin_cash = JObj [(''code'', JStr ''BCH''), (''name'', JStr ''Bitcoin Cash''), (''rank'', JInt 3)]"

definition wrapped_bitcoin :: json where
  "wrapped_bitcoin = JObj [(''code'', JStr ''WBTC''), (''name'', JStr ''Wrapped Bitcoin''), (''rank'', JInt 4)]"

definition answers :: "int \<Rightarrow> body \<Rightarrow> upstream" where
  "answers status_code content = \<lparr>outcome = Response status_code content, elapsed = 1\<rparr>"

definition times_out :: upstream where
  "times_out = \<lparr>outcome = TimeoutException, elapsed = 10\<rparr>"

text \<open>
  The state after the first lookup of BTC in USD, and a state whose only entry, written
  at time 0, has expired by the present time 1000.
\<close>

definition bitcoin_cached :: world where
  "bitcoin_cached =
     \<lparr>cache = \<lparr>ttl = 300, entries = [''coin_BTC_USD'' \<mapsto> \<lparr>entry_value = bitcoin, entry_timestamp = 1\<rparr>]\<rparr>,
      clock = 1, sent = [single_request ''BTC'' ''USD'']\<rparr>"

definition stale_world :: world where
  "stale_world =
     \<lparr>cache = \<lparr>ttl = 300, entries = [''coin_BTC_USD'' \<mapsto> \<lparr>entry_value = bitcoin, entry_timestamp = 0\<rparr>]\<rparr>,
      clock = 1000, sent = []\<rparr>"


definition searched_world :: world where
  "searched_world =
     \<lparr>cache = \<lparr>ttl = 300, entries =
         [''coins_list_USD_200_0'' \<mapsto> \<lparr>entry_value = JArr [bitcoin, ethereum], entry_timestamp = 1\<rparr>,
          ''search_doge_USD_10'' \<mapsto> \<lparr>entry_value = JArr [], entry_timestamp = 1\<rparr>]\<rparr>,
      clock = 1, sent = [list_request ''USD'' 200 0]\<rparr>"

definition error_body :: "string \<Rightarrow> body" where
  "error_body description =
     Json (JObj [(''error'', JObj [(''code'', JInt 500), (''description'', JStr description)])])"


section \<open>Properties of the cache\<close>

text \<open>
  Claim C1. For every key \<open>k\<close>, \<open>get k\<close> returns the stored value if an entry for \<open>k\<close> is
  present and \<open>now - inserted_at \<le> ttl\<close>; if an entry is present but expired it deletes
  that entry and returns absent (\<^verbatim>\<open>None\<close>); and when no entry for \<open>k\<close> is present it
  returns absent and leaves the cache unchanged.
\<close>

theorem cache_get_spec:
  "(entries c k = None \<longrightarrow> cache_get now c k = (JNull, c)) \<and>
   (\<forall>e. entries c k = Some e \<and> now - entry_timestamp e \<le> of_int (ttl c) \<longrightarrow>
        cache_get now c k = (entry_value e, c)) \<and>
   (\<forall>e. entries c k = Some e \<and> \<not> now - entry_timestamp e \<le> of_int (ttl c) \<longrightarrow>
        cache_get now c k = (JNull, c\<lparr>entries := (entries c)(k := None)\<rparr>) \<and>
        entries (snd (cache_get now c k)) k = None)"
  by (simp add: cache_get_def)

theorem cache_get_spec_witness:
  "cache_get 10 \<lparr>ttl = 300, entries = Map.empty\<rparr> ''k''
     = (JNull, \<lparr>ttl = 300, entries = Map.empty\<rparr>) \<and>
   cache_get 310 \<lparr>ttl = 300, entries = [''k'' \<mapsto> \<lparr>entry_value = JInt 7, entry_timestamp = 10\<rparr>]\<rparr> ''k''
     = (JInt 7, \<lparr>ttl = 300, entries = [''k'' \<mapsto> \<lparr>entry_value = JInt 7, entry_timestamp = 10\<rparr>]\<rparr>) \<and>
   fst (cache_get 311 \<lparr>ttl = 300, entries = [''k'' \<mapsto> \<lparr>entry_value = JInt 7, entry_timestamp = 10\<rparr>]\<rparr> ''k'')
     = JNull \<and>
   entries (snd (cache_get 311
       \<lparr>ttl = 300, entries = [''k'' \<mapsto> \<lparr>entry_value = JInt 7, entry_timestamp = 10\<rparr>]\<rparr> ''k'')) ''k''
     = None"
  using cache_get_spec [of "\<lparr>ttl = 300, entries = Map.empty\<rparr>" "''k''" 10]
    cache_get_spec [of "\<lparr>ttl = 300, entries = [''k'' \<mapsto> \<lparr>entry_value = JInt 7, entry_timestamp = 10\<rparr>]\<rparr>" "''k''" 310]
    cache_get_spec [of "\<lparr>ttl = 300, entries = [''k'' \<mapsto> \<lparr>entry_value = JInt 7, entry_timestamp = 10\<rparr>]\<rparr>" "''k''" 311]
  by simp

text \<open>
  Claim C7. For every key \<open>k\<close> and value \<open>v\<close>, \<open>set k v\<close> stores \<open>v\<close> under \<open>k\<close> with the
  current timestamp, overwriting any prior entry for \<open>k\<close> and leaving every other entry
  and the TTL alone; so the expiry clock of \<open>k\<close> restarts at the new insertion time: a
  later \<open>get k\<close> returns \<open>v\<close> exactly while \<open>later - now \<le> ttl\<close>, whatever entry \<open>k\<close> had
  before.
\<close>

theorem cache_set_spec:
  "entries (cache_set now c k v) k = Some \<lparr>entry_value = v, entry_timestamp = now\<rparr> \<and>
   entries (cache_set now c k v) = (entries c)(k \<mapsto> \<lparr>entry_value = v, entry_timestamp = now\<rparr>) \<and>
   ttl (cache_set now c k v) = ttl c \<and>
   fst (cache_get later (cache_set now c k v) k)
     = (if later - now \<le> of_int (ttl c) then v else JNull)"
  by (simp add: cache_set_def cache_get_def)

section \<open>Properties of the gateway\<close>

subsection \<open>Reading and writing the cache\<close>

lemma truthy_JNull [simp]: "\<not> truthy JNull"
  by (simp add: truthy_def)

lemma global_get_frame [simp]:
  "sent (snd (global_get w k)) = sent w"
  "clock (snd (global_get w k)) = clock w"
  "ttl (cache (snd (global_get w k))) = ttl (cache w)"
  by (simp_all add: global_get_def cache_get_def split: option.splits)

lemma global_get_live:
  "entries (cache w) k = Some e \<Longrightarrow> clock w - entry_timestamp e \<le> of_int (ttl (cache w)) \<Longrightarrow>
   global_get w k = (entry_value e, w)"
  by (simp add: global_get_def cache_get_def)


lemma global_set_frame [simp]:
  "sent (global_set w k v) = sent w"
  "clock (global_set w k v) = clock w"
  "ttl (cache (global_set w k v)) = ttl (cache w)"
  "entries (cache (global_set w k v)) k = Some \<lparr>entry_value = v, entry_timestamp = clock w\<rparr>"
  by (simp_all add: global_set_def cache_set_def)

lemma make_request_frame [simp]:
  "fst (make_request rt up w ep d) = classify rt (outcome up)"
  "cache (snd (make_request rt up w ep d)) = cache w"
  "sent (snd (make_request rt up w ep d)) = sent w @ [(ep, d)]"
  "clock (snd (make_request rt up w ep d)) = clock w + elapsed up"
  by (simp_all add: make_request_def)

lemma world_clock_id [simp]: "w\<lparr>clock := clock w\<rparr> = w"
  by simp

lemma global_get_hit: "hit w k v \<Longrightarrow> global_get w k = (v, w)"
  by (auto simp: hit_def global_get_live)

lemma hit_run: "hit w (key_of op) v \<Longrightarrow> run rt up w op = (Inr v, w)"
  by (cases op)
     (auto simp: get_single_coin_def get_coins_list_def search_coins_def get_market_overview_def
        Let_def global_get_hit hit_def)




lemma entries_global_get:
  "entries (cache (snd (global_get w k))) k' =
     (if k' = k \<and> (\<exists>e. entries (cache w) k = Some e \<and>
                        of_int (ttl (cache w)) < clock w - entry_timestamp e)
      then None else entries (cache w) k')"
  by (auto simp: global_get_def cache_get_def split: option.splits)

lemma failed_run_cache:
  assumes "classify rt (outcome up) = Inl err" and "sent (snd (run rt up w op)) \<noteq> sent w"
  shows "(\<exists>e. fst (run rt up w op) = Inl e) \<and>
         (cache (snd (run rt up w op)) = cache (snd (global_get w (key_of op))) \<or>
          (\<exists>k. cache (snd (run rt up w op)) =
                cache (snd (global_get (snd (global_get w (key_of op))) k))))"
  using assms
  by (cases op)
     (auto simp: get_single_coin_def get_coins_list_def search_coins_def get_market_overview_def
          Let_def case_prod_beta and_then_def split: sum.splits py_error.splits if_splits)

text \<open>
  Claim C6, with the one change of state the code makes. When an operation posts a request
  and the provider's answer is classified as a failure, the operation raises, and no
  entry is written: every entry of the cache afterwards was there before with the same
  value and timestamp, and the TTL is the same. The only entries that can be missing are
  entries that had already expired when the operation read them (the read evicts them);
  so a read of any key at that time or later returns what it would have returned before
  the failed call.
\<close>

theorem failed_upstream_writes_nothing:
  assumes "classify rt (outcome up) = Inl err" and "sent (snd (run rt up w op)) \<noteq> sent w"
  shows "(\<exists>e. fst (run rt up w op) = Inl e) \<and>
         ttl (cache (snd (run rt up w op))) = ttl (cache w) \<and>
         (\<forall>k. entries (cache (snd (run rt up w op))) k = entries (cache w) k \<or>
              entries (cache (snd (run rt up w op))) k = None \<and>
              (\<exists>en. entries (cache w) k = Some en \<and>
                    of_int (ttl (cache w)) < clock w - entry_timestamp en)) \<and>
         (\<forall>k t. clock w \<le> t \<longrightarrow>
              fst (cache_get t (cache (snd (run rt up w op))) k) = fst (cache_get t (cache w) k))"
proof -
  let ?c = "cache (snd (run rt up w op))"
  from failed_run_cache [OF assms] have err: "\<exists>e. fst (run rt up w op) = Inl e"
    and shape: "?c = cache (snd (global_get w (key_of op))) \<or>
      (\<exists>k. ?c = cache (snd (global_get (snd (global_get w (key_of op))) k)))"
    by blast+
  from shape have t: "ttl ?c = ttl (cache w)"
    by auto
  have one: "entries (cache (snd (global_get v k'))) k = entries (cache v) k \<or>
      entries (cache (snd (global_get v k'))) k = None \<and>
      (\<exists>en. entries (cache v) k = Some en \<and> of_int (ttl (cache v)) < clock v - entry_timestamp en)"
    for v k k'
    by (simp add: entries_global_get)
  have ev: "entries ?c k = entries (cache w) k \<or>
      entries ?c k = None \<and>
      (\<exists>en. entries (cache w) k = Some en \<and> of_int (ttl (cache w)) < clock w - entry_timestamp en)"
    for k
  proof -
    let ?w1 = "snd (global_get w (key_of op))"
    from shape show ?thesis
    proof
      assume "?c = cache ?w1"
      with one [of w "key_of op" k] show ?thesis by simp
    next
      assume "\<exists>k'. ?c = cache (snd (global_get ?w1 k'))"
      then obtain k' where c: "?c = cache (snd (global_get ?w1 k'))" ..
      from one [of ?w1 k' k] one [of w "key_of op" k] show ?thesis
        unfolding c by (elim disjE conjE exE) simp_all
    qed
  qed
  have rd: "fst (cache_get t ?c k) = fst (cache_get t (cache w) k)" if "clock w \<le> t" for k t
    using ev [of k] t that by (auto simp: cache_get_def split: option.splits)
  from err t ev rd show ?thesis by blast
qed


subsection \<open>Falsy cached values\<close>

lemma search_key_neq_list_key [simp]: "search_key q c n \<noteq> coins_list_key c' l ofs"
  "coins_list_key c' l ofs \<noteq> search_key q c n"
  by (simp_all add: search_key_def coins_list_key_def)

lemma fst_global_get:
  "fst (global_get w k) = (case entries (cache w) k of None \<Rightarrow> JNull
      | Some e \<Rightarrow> if of_int (ttl (cache w)) < clock w - entry_timestamp e then JNull else entry_value e)"
  by (simp add: global_get_def cache_get_def split: option.splits)

lemma get_coins_list_cong:
  assumes "clock w = clock w'" "ttl (cache w) = ttl (cache w')" "sent w = sent w'"
    "entries (cache w) (coins_list_key c l ofs) = entries (cache w') (coins_list_key c l ofs)"
  shows "fst (get_coins_list rt up w c l ofs) = fst (get_coins_list rt up w' c l ofs) \<and>
         sent (snd (get_coins_list rt up w c l ofs)) = sent (snd (get_coins_list rt up w' c l ofs))"
  using assms
  by (auto simp: get_coins_list_def Let_def case_prod_beta fst_global_get
        split: sum.splits option.splits)

lemma falsy_miss:
  assumes "entries (cache w) k = Some e" and "\<not> truthy (entry_value e)"
  shows "\<not> truthy (fst (global_get w k))"
  using assms by (simp add: fst_global_get)

lemma search_coins_miss:
  assumes "\<not> truthy (fst (global_get w (search_key q c n)))"
  shows "fst (search_coins rt up w q c n) =
           map_sum id JArr (and_then (fst (get_coins_list rt up (snd (global_get w (search_key q c n))) c 200 0))
              (\<lambda>coins_data. and_then (py_iter coins_data) (\<lambda>coins. match_loop (lower q) n coins [])))"
    and "sent (snd (search_coins rt up w q c n)) =
           sent (snd (get_coins_list rt up (snd (global_get w (search_key q c n))) c 200 0))"
  using assms
  by (auto simp: search_coins_def Let_def case_prod_beta split: sum.splits)

text \<open>
  Claim C9, with what a repeated search really posts. An entry whose value is falsy is
  treated as a miss by every operation: the operation returns, and posts, exactly what it
  would if the entry were absent. For the three operations that call the provider
  directly this means that the request is posted again. A search goes to the listing
  operation instead: it posts nothing while the listing for its currency is cached, live
  and truthy, and posts the listing request when no listing is cached.
\<close>

theorem falsy_cached_value_is_a_miss:
  assumes "entries (cache w) (key_of op) = Some e" and "\<not> truthy (entry_value e)"
  shows "fst (run rt up w op)
           = fst (run rt up (w\<lparr>cache := (cache w)\<lparr>entries := (entries (cache w))(key_of op := None)\<rparr>\<rparr>) op) \<and>
         sent (snd (run rt up w op))
           = sent (snd (run rt up (w\<lparr>cache := (cache w)\<lparr>entries := (entries (cache w))(key_of op := None)\<rparr>\<rparr>) op)) \<and>
         ((\<forall>q c n. op \<noteq> SearchCoins q c n) \<longrightarrow> sent (snd (run rt up w op)) = sent w @ [request_of op]) \<and>
         (\<forall>q c n. op = SearchCoins q c n \<longrightarrow>
            (\<forall>l. entries (cache w) (coins_list_key c 200 0) = Some l \<and> truthy (entry_value l) \<and>
                 clock w - entry_timestamp l \<le> of_int (ttl (cache w)) \<longrightarrow>
                 sent (snd (run rt up w op)) = sent w) \<and>
            (entries (cache w) (coins_list_key c 200 0) = None \<longrightarrow>
                 sent (snd (run rt up w op)) = sent w @ [request_of op]))"
proof -
  let ?w0 = "w\<lparr>cache := (cache w)\<lparr>entries := (entries (cache w))(key_of op := None)\<rparr>\<rparr>"
  have miss: "\<not> truthy (fst (global_get w (key_of op)))"
    using assms by (rule falsy_miss)
  have miss0: "\<not> truthy (fst (global_get ?w0 (key_of op)))"
    by (simp add: fst_global_get)
  show ?thesis
  proof (cases op)
    case (GetSingleCoin s c)
    with miss miss0 show ?thesis
      by (auto simp: get_single_coin_def Let_def case_prod_beta split: sum.splits py_error.splits)
  next
    case (GetCoinsList c l ofs)
    with miss miss0 show ?thesis
      by (auto simp: get_coins_list_def Let_def case_prod_beta split: sum.splits)
  next
    case (GetMarketOverview c)
    with miss miss0 show ?thesis
      by (auto simp: get_market_overview_def Let_def case_prod_beta split: sum.splits)
  next
    case (SearchCoins q c n)
    let ?k = "search_key q c n"
    let ?w1 = "snd (global_get w ?k)" and ?w2 = "snd (global_get ?w0 ?k)"
    have agree: "clock ?w1 = clock ?w2" "ttl (cache ?w1) = ttl (cache ?w2)" "sent ?w1 = sent ?w2"
      "entries (cache ?w1) (coins_list_key c 200 0) = entries (cache ?w2) (coins_list_key c 200 0)"
      using SearchCoins by (simp_all add: entries_global_get)
    note cong = get_coins_list_cong [OF agree, of rt up]
    have m: "\<not> truthy (fst (global_get w ?k))" "\<not> truthy (fst (global_get ?w0 ?k))"
      using miss miss0 SearchCoins by simp_all
    have A: "fst (run rt up w op) = fst (run rt up ?w0 op)"
      "sent (snd (run rt up w op)) = sent (snd (run rt up ?w0 op))"
      using SearchCoins cong search_coins_miss [OF m(1), of rt up] search_coins_miss [OF m(2), of rt up]
      by simp_all
    have sent1: "sent (snd (run rt up w op)) = sent (snd (get_coins_list rt up ?w1 c 200 0))"
      using SearchCoins search_coins_miss(2) [OF m(1), of rt up] by simp
    have B: "sent (snd (run rt up w op)) = sent w"
      if "entries (cache w) (coins_list_key c 200 0) = Some l" "truthy (entry_value l)"
         "clock w - entry_timestamp l \<le> of_int (ttl (cache w))" for l
    proof -
      have "hit ?w1 (coins_list_key c 200 0) (entry_value l)"
        using that by (simp add: hit_def entries_global_get)
      from hit_run [OF this [folded key_of.simps(2)], of rt up] show ?thesis
        using sent1 by simp
    qed
    have C: "sent (snd (run rt up w op)) = sent w @ [request_of op]"
      if "entries (cache w) (coins_list_key c 200 0) = None"
    proof -
      have "\<not> truthy (fst (global_get ?w1 (coins_list_key c 200 0)))"
        using that by (simp add: fst_global_get entries_global_get)
      then show ?thesis using sent1 SearchCoins
        by (auto simp: get_coins_list_def Let_def case_prod_beta split: sum.splits)
    qed
    from A B C SearchCoins show ?thesis by auto
  qed
qed


subsection \<open>Search\<close>






subsection \<open>Errors of the provider and their status codes\<close>

lemma lower_append: "lower (a @ b) = lower a @ lower b"
  by (simp add: lower_def)

lemmas lower_eval = lower_def lower_char_def ascii_uppercase_def ascii_lowercase_def

lemma api_error_message_500: "api_error_message 500 d = ''API error (500): '' @ d"
  by (simp add: api_error_message_def str_int_def str_nat.simps digits_def)

lemma classify_500:
  assumes "error_description b = Some d"
  shows "classify rt (Response 500 b) = Inl (LiveCoinWatchError (api_error_message 500 d))"
  using assms
  by (auto simp: classify_def error_description_def and_then_def response_json_def py_get_def
        py_str_def split: body.splits json.splits option.splits)

lemma handler_rate_limit: "livecoinwatch_exception_handler ''Rate limit exceeded'' = 429"
  by (simp add: livecoinwatch_exception_handler_def py_in_def lower_eval sublist_Cons_right)

lemma handler_unauthorized:
  "livecoinwatch_exception_handler ''Invalid API key or unauthorized access'' = 401"
  by (simp add: livecoinwatch_exception_handler_def py_in_def lower_eval sublist_Cons_right)

lemma api_error_500_phrases:
  "py_in ''not found'' (lower (''API error (500): '' @ d)) = py_in ''not found'' (lower d)"
  "py_in ''unauthorized'' (lower (''API error (500): '' @ d)) = py_in ''unauthorized'' (lower d)"
  "py_in ''rate limit'' (lower (''API error (500): '' @ d)) = py_in ''rate limit'' (lower d)"
proof -
  have l: "lower (''API error (500): '' @ d) = ''api error (500): '' @ lower d"
    by (simp add: lower_append) (simp add: lower_eval)
  show "py_in ''not found'' (lower (''API error (500): '' @ d)) = py_in ''not found'' (lower d)"
    unfolding l py_in_def by (simp add: sublist_Cons_right)
  show "py_in ''unauthorized'' (lower (''API error (500): '' @ d)) = py_in ''unauthorized'' (lower d)"
    unfolding l py_in_def by (simp add: sublist_Cons_right)
  show "py_in ''rate limit'' (lower (''API error (500): '' @ d)) = py_in ''rate limit'' (lower d)"
    unfolding l py_in_def by (simp add: sublist_Cons_right)
qed

lemma handler_api_error_500:
  assumes "\<not> py_in ''not found'' (lower d)" "\<not> py_in ''unauthorized'' (lower d)"
    "\<not> py_in ''rate limit'' (lower d)"
  shows "livecoinwatch_exception_handler (api_error_message 500 d) = 502"
  unfolding livecoinwatch_exception_handler_def api_error_message_500 api_error_500_phrases
  using assms by simp

lemma not_found_rewrap:
  "py_in ''not found'' (lower (not_found_message s))"
proof -
  have "lower (not_found_message s)
          = (lower (''Cryptocurrency '' @ [CHR 0x27] @ s @ [CHR 0x27] @ '' '')) @ ''not found'' @ []"
    by (simp add: not_found_message_def lower_append) (simp add: lower_eval)
  then show ?thesis unfolding py_in_def by (metis sublist_appendI)
qed

lemma run_upstream_error:
  assumes "sent (snd (run rt up w op)) \<noteq> sent w"
    and "classify rt (outcome up) = Inl (LiveCoinWatchError msg)"
  shows "\<exists>msg'. fst (run rt up w op) = Inl (LiveCoinWatchError msg') \<and>
           livecoinwatch_exception_handler msg' = livecoinwatch_exception_handler msg \<and>
           (\<not> py_in ''not found'' (lower msg) \<longrightarrow> msg' = msg)"
  using assms
  by (cases op)
     (auto simp: get_single_coin_def get_coins_list_def search_coins_def get_market_overview_def
        Let_def case_prod_beta and_then_def livecoinwatch_exception_handler_def not_found_rewrap
        split: sum.splits py_error.splits if_splits)

lemma validate_currency_value [simp]:
  "validate_currency (currency_value c) = Inr (currency_value c)"
  by (cases c)
     (simp_all add: validate_currency_def strip_def isspace_def whitespace_def upper_def
        upper_char_def ascii_lowercase_def ascii_uppercase_def supported_currencies_def)

lemma serve_upstream_error:
  assumes "sent (snd (serve rt up w r)) \<noteq> sent w"
    and "classify rt (outcome up) = Inl (LiveCoinWatchError msg)"
  shows "fst (serve rt up w r) = livecoinwatch_exception_handler msg"
proof (cases r)
  case (Crypto s c)
  show ?thesis
  proof (cases "validate_crypto_symbol s")
    case (Inl e)
    with Crypto assms(1) show ?thesis by (simp add: get_cryptocurrency_def)
  next
    case (Inr vs)
    with Crypto assms(1) have "sent (snd (run rt up w (GetSingleCoin vs (currency_value c)))) \<noteq> sent w"
      by (simp add: get_cryptocurrency_def case_prod_beta)
    from run_upstream_error [OF this assms(2)] Crypto Inr show ?thesis
      by (auto simp: get_cryptocurrency_def case_prod_beta and_then_def except_ValueError_def
            is_ValueError_def http_status_def error_status_def)
  qed
next
  case (CryptoList l ofs c)
  show ?thesis
  proof (cases "validate_limit l 100")
    case (Inl e)
    with CryptoList assms(1) show ?thesis
      by (simp add: get_cryptocurrencies_def split: if_splits)
  next
    case (Inr vl)
    from CryptoList assms(1) have bounds: "\<not> (l < 1 \<or> 100 < l \<or> ofs < 0)"
      by (auto split: if_splits)
    with Inr CryptoList assms(1) have "sent (snd (run rt up w (GetCoinsList (currency_value c) vl ofs))) \<noteq> sent w"
      by (simp add: get_cryptocurrencies_def case_prod_beta)
    from run_upstream_error [OF this assms(2)] CryptoList Inr bounds show ?thesis
      by (auto simp: get_cryptocurrencies_def case_prod_beta and_then_def except_ValueError_def
            is_ValueError_def http_status_def error_status_def)
  qed
next
  case (Search q l c)
  show ?thesis
  proof (cases "validate_limit l 50")
    case (Inl e)
    with Search assms(1) show ?thesis
      by (simp add: search_cryptocurrencies_def split: if_splits)
  next
    case (Inr vl)
    from Search assms(1) have bounds: "\<not> (length q < 1 \<or> l < 1 \<or> 50 < l)"
      by (auto split: if_splits)
    with Inr Search assms(1) have "sent (snd (run rt up w (SearchCoins q (currency_value c) vl))) \<noteq> sent w"
      by (simp add: search_cryptocurrencies_def case_prod_beta)
    from run_upstream_error [OF this assms(2)] Search Inr bounds show ?thesis
      by (auto simp: search_cryptocurrencies_def case_prod_beta and_then_def except_ValueError_def
            is_ValueError_def http_status_def error_status_def)
  qed
next
  case (Market c)
  with assms(1) have "sent (snd (run rt up w (GetMarketOverview (currency_value c)))) \<noteq> sent w"
    by (simp add: get_market_overview_route_def case_prod_beta)
  from run_upstream_error [OF this assms(2)] Market show ?thesis
    by (auto simp: get_market_overview_route_def case_prod_beta and_then_def except_ValueError_def
          is_ValueError_def http_status_def error_status_def)
qed

text \<open>
  Claim C5, with the descriptions for which a 500 is answered with 502. Whenever the
  handling of a request to one of the four data routes posts a request to the provider:
  a provider response 429 is raised as \<^verbatim>\<open>LiveCoinWatchError("Rate limit exceeded")\<close> and
  answered with HTTP 429; a response 401 is answered with HTTP 401; a response 500 whose
  body is empty, or is an object with no description, or with a description that is a
  string containing none of \<^verbatim>\<open>not found\<close>, \<^verbatim>\<open>unauthorized\<close> and \<^verbatim>\<open>rate limit\<close> in any
  letter case, is answered with HTTP 502.
\<close>

theorem upstream_error_status:
  assumes "sent (snd (serve rt up w r)) \<noteq> sent w"
  shows "(\<forall>b. outcome up = Response 429 b \<longrightarrow>
            classify rt (outcome up) = Inl (LiveCoinWatchError ''Rate limit exceeded'') \<and>
            fst (serve rt up w r) = 429) \<and>
         (\<forall>b. outcome up = Response 401 b \<longrightarrow> fst (serve rt up w r) = 401) \<and>
         (\<forall>b d. outcome up = Response 500 b \<and> error_description b = Some d \<and>
            \<not> py_in ''not found'' (lower d) \<and> \<not> py_in ''unauthorized'' (lower d) \<and>
            \<not> py_in ''rate limit'' (lower d) \<longrightarrow> fst (serve rt up w r) = 502)"
proof (intro conjI allI impI)
  fix b assume "outcome up = Response 429 b"
  then show c: "classify rt (outcome up) = Inl (LiveCoinWatchError ''Rate limit exceeded'')"
    by (simp add: classify_def)
  from serve_upstream_error [OF assms c] show "fst (serve rt up w r) = 429"
    by (simp add: handler_rate_limit)
next
  fix b assume "outcome up = Response 401 b"
  then have "classify rt (outcome up) = Inl (LiveCoinWatchError ''Invalid API key or unauthorized access'')"
    by (simp add: classify_def)
  from serve_upstream_error [OF assms this] show "fst (serve rt up w r) = 401"
    by (simp add: handler_unauthorized)
next
  fix b d assume a: "outcome up = Response 500 b \<and> error_description b = Some d \<and>
            \<not> py_in ''not found'' (lower d) \<and> \<not> py_in ''unauthorized'' (lower d) \<and>
            \<not> py_in ''rate limit'' (lower d)"
  then have "classify rt (outcome up) = Inl (LiveCoinWatchError (api_error_message 500 d))"
    by (simp add: classify_500)
  from serve_upstream_error [OF assms this] a show "fst (serve rt up w r) = 502"
    by (simp add: handler_api_error_500)
qed


subsection \<open>The routes\<close>

lemma and_then_Inr_iff: "and_then r f = Inr y \<longleftrightarrow> (\<exists>x. r = Inr x \<and> f x = Inr y)"
  by (cases r) (simp_all add: and_then_def)

lemma py_get_Inr_iff:
  "py_get x k d = Inr v \<longleftrightarrow> (\<exists>kvs. x = JObj kvs \<and> v = (case map_of kvs k of Some u \<Rightarrow> u | None \<Rightarrow> d))"
  by (cases x) (auto simp: py_get_def)

lemma percent_change_Inr_iff:
  "percent_change day = Inr c \<longleftrightarrow> (\<exists>d. float_operand day = Inr d \<and> c = fmul (fsub d float_1_0) float_100)"
  by (auto simp: percent_change_def and_then_Inr_iff)

lemma CryptocurrencyResponse_init_Inr:
  assumes "CryptocurrencyResponse_init rt sv nv pv cv vv mv rv = Inr r"
  shows "pyd_str sv = Some (resp_symbol r)" "pyd_float rt cv = Some (resp_percent_change_24h r)"
  using assms
  by (auto simp: CryptocurrencyResponse_init_def split: option.splits)

lemma single_response_Inr:
  assumes "single_response rt vs data = Inr r"
  shows "\<exists>kvs. data = JObj kvs \<and>
           pyd_str (case map_of kvs ''symbol'' of Some v \<Rightarrow> v | None \<Rightarrow> JStr vs) = Some (resp_symbol r) \<and>
           (\<exists>delta day d. py_get data ''delta'' (JObj []) = Inr delta \<and>
              py_get delta ''day'' (JFloat float_1_0) = Inr day \<and>
              float_operand day = Inr d \<and>
              resp_percent_change_24h r = fmul (fsub d float_1_0) float_100)"
proof -
  from assms obtain symbol_v name_v price_v delta day change volume_v cap_v rank_v where
    s: "py_get data ''symbol'' (JStr vs) = Inr symbol_v"
    and d: "py_get data ''delta'' (JObj []) = Inr delta"
    and dy: "py_get delta ''day'' (JFloat float_1_0) = Inr day"
    and ch: "percent_change day = Inr change"
    and init: "CryptocurrencyResponse_init rt symbol_v name_v price_v (JFloat change) volume_v cap_v rank_v = Inr r"
    unfolding single_response_def and_then_Inr_iff by blast
  from s obtain kvs where k: "data = JObj kvs"
    "symbol_v = (case map_of kvs ''symbol'' of Some u \<Rightarrow> u | None \<Rightarrow> JStr vs)"
    unfolding py_get_Inr_iff by blast
  from ch obtain x where x: "float_operand day = Inr x" "change = fmul (fsub x float_1_0) float_100"
    unfolding percent_change_Inr_iff by blast
  from CryptocurrencyResponse_init_Inr [OF init]
  have "pyd_str symbol_v = Some (resp_symbol r)" "resp_percent_change_24h r = change"
    by (simp_all add: pyd_float_def)
  with k x d dy show ?thesis by blast
qed

lemma validate_crypto_symbol_Inr:
  "validate_crypto_symbol s = Inr v \<Longrightarrow> v = normalize s"
  by (auto simp: validate_crypto_symbol_def normalize_def Let_def split: if_splits)

lemma except_ValueError_Inr [simp]: "except_ValueError r = Inr x \<longleftrightarrow> r = Inr x"
  by (cases r) (auto simp: except_ValueError_def)

lemma get_cryptocurrency_Inr:
  assumes "get_cryptocurrency rt up w s c = (Inr r, w1)"
  shows "validate_crypto_symbol s = Inr (normalize s) \<and>
         (\<exists>data. get_single_coin rt up w (normalize s) (currency_value c) = (Inr data, w1) \<and>
                 single_response rt (normalize s) data = Inr r)"
proof (cases "validate_crypto_symbol s")
  case (Inl e)
  with assms show ?thesis by (simp add: get_cryptocurrency_def)
next
  case (Inr v)
  then have v: "v = normalize s" by (rule validate_crypto_symbol_Inr)
  with Inr assms show ?thesis
    by (cases "get_single_coin rt up w (normalize s) (currency_value c)")
       (auto simp: get_cryptocurrency_def and_then_Inr_iff)
qed


lemma percent_change_of_payload:
  assumes "get_cryptocurrency rt up w s c = (Inr r, w1)"
  shows "\<exists>data. get_single_coin rt up w (normalize s) (currency_value c) = (Inr data, w1) \<and>
           (\<forall>delta day. json_field data ''delta'' = Some delta \<and> json_field delta ''day'' = Some day \<longrightarrow>
              (\<exists>d. float_operand day = Inr d \<and> (\<forall>x. day = JFloat x \<longrightarrow> d = x) \<and>
                   resp_percent_change_24h r = fmul (fsub d float_1_0) float_100))"
proof -
  from get_cryptocurrency_Inr [OF assms] obtain data where
    g: "get_single_coin rt up w (normalize s) (currency_value c) = (Inr data, w1)"
    and sr: "single_response rt (normalize s) data = Inr r" by blast
  from single_response_Inr [OF sr] obtain delta day d where
    p: "py_get data ''delta'' (JObj []) = Inr delta"
       "py_get delta ''day'' (JFloat float_1_0) = Inr day"
       "float_operand day = Inr d"
       "resp_percent_change_24h r = fmul (fsub d float_1_0) float_100"
    by blast
  have f: "\<exists>d. float_operand day' = Inr d \<and> (\<forall>x. day' = JFloat x \<longrightarrow> d = x) \<and>
                   resp_percent_change_24h r = fmul (fsub d float_1_0) float_100"
    if "json_field data ''delta'' = Some delta' \<and> json_field delta' ''day'' = Some day'" for delta' day'
  proof -
    from that have t1: "json_field data ''delta'' = Some delta'"
      and t2: "json_field delta' ''day'' = Some day'" by simp_all
    from t1 p(1) have "delta' = delta"
      by (auto simp: json_field_def py_get_def split: json.splits)
    with t2 p(2) have "day' = day"
      by (auto simp: json_field_def py_get_def split: json.splits)
    with p(3,4) show ?thesis by (auto simp: float_operand_def)
  qed
  show ?thesis
    by (rule exI [of _ data], rule conjI, rule g, intro allI impI, rule f)
qed

lemma transform_length:
  "transform rt items acc = Inr out \<Longrightarrow> length out = length acc + length items"
  by (induction items arbitrary: acc) (auto simp: and_then_Inr_iff)

lemma list_response_Inr:
  assumes "list_response rt vc data = Inr r"
  shows "total_count r = int (length (list_data r)) \<and>
         (\<exists>items. py_iter data = Inr items \<and> length (list_data r) = length items)"
  using assms
  by (auto simp: list_response_def and_then_Inr_iff dest: transform_length)

lemma get_cryptocurrencies_Inr:
  assumes "get_cryptocurrencies rt up w limit ofs c = (Inr r, w1)"
  shows "\<exists>data. fst (get_coins_list rt up w (currency_value c) limit ofs) = Inr data \<and>
           list_response rt (currency_value c) data = Inr r"
proof (cases "validate_limit limit 100")
  case (Inl e)
  with assms show ?thesis by (simp add: get_cryptocurrencies_def)
next
  case (Inr vl)
  then have "vl = limit" by (simp add: validate_limit_def split: if_splits)
  with Inr assms show ?thesis
    by (simp add: get_cryptocurrencies_def case_prod_beta and_then_Inr_iff)
qed

lemma search_cryptocurrencies_Inr:
  assumes "search_cryptocurrencies rt up w q limit c = (Inr r, w1)"
  shows "\<exists>data. fst (search_coins rt up w q (currency_value c) limit) = Inr data \<and>
           list_response rt (currency_value c) data = Inr r"
proof (cases "validate_limit limit 50")
  case (Inl e)
  with assms show ?thesis by (simp add: search_cryptocurrencies_def)
next
  case (Inr vl)
  then have "vl = limit" by (simp add: validate_limit_def split: if_splits)
  with Inr assms show ?thesis
    by (simp add: search_cryptocurrencies_def case_prod_beta and_then_Inr_iff)
qed

text \<open>
  Claim C10. In every response of the list route and of the search route, \<open>total_count\<close>
  is the number of elements of the \<open>data\<close> array of that response, which is the number of
  elements of the page or result the gateway returned.
\<close>

theorem total_count_is_length:
  "(get_cryptocurrencies rt up w limit ofs c = (Inr r, w1) \<longrightarrow>
      total_count r = int (length (list_data r)) \<and>
      (\<exists>data items. fst (get_coins_list rt up w (currency_value c) limit ofs) = Inr data \<and>
          py_iter data = Inr items \<and> length (list_data r) = length items)) \<and>
   (search_cryptocurrencies rt up w q limit c = (Inr r, w1) \<longrightarrow>
      total_count r = int (length (list_data r)) \<and>
      (\<exists>data items. fst (search_coins rt up w q (currency_value c) limit) = Inr data \<and>
          py_iter data = Inr items \<and> length (list_data r) = length items))"
proof (intro conjI impI)
  assume a: "get_cryptocurrencies rt up w limit ofs c = (Inr r, w1)"
  from get_cryptocurrencies_Inr [OF a] obtain data where
    d: "fst (get_coins_list rt up w (currency_value c) limit ofs) = Inr data"
    and lr: "list_response rt (currency_value c) data = Inr r" by blast
  from list_response_Inr [OF lr] show "total_count r = int (length (list_data r))" by blast
  from list_response_Inr [OF lr] d
  show "\<exists>data items. fst (get_coins_list rt up w (currency_value c) limit ofs) = Inr data \<and>
          py_iter data = Inr items \<and> length (list_data r) = length items"
    by blast
next
  assume a: "search_cryptocurrencies rt up w q limit c = (Inr r, w1)"
  from search_cryptocurrencies_Inr [OF a] obtain data where
    d: "fst (search_coins rt up w q (currency_value c) limit) = Inr data"
    and lr: "list_response rt (currency_value c) data = Inr r" by blast
  from list_response_Inr [OF lr] show "total_count r = int (length (list_data r))" by blast
  from list_response_Inr [OF lr] d
  show "\<exists>data items. fst (search_coins rt up w q (currency_value c) limit) = Inr data \<and>
          py_iter data = Inr items \<and> length (list_data r) = length items"
    by blast
qed


subsection \<open>Evaluation at concrete data\<close>

lemmas string_eval = lower_def lower_char_def upper_def upper_char_def ascii_uppercase_def
  ascii_lowercase_def digits_def strip_def isspace_def whitespace_def py_in_def
  sublist_Cons_right str_int_def str_nat.simps

lemmas gateway_eval = run.simps get_single_coin_def get_coins_list_def search_coins_def
  get_market_overview_def global_get_def global_set_def cache_get_def cache_set_def
  make_request_def classify_def response_json_def coin_key_def coins_list_key_def
  search_key_def market_overview_key_def single_request_def list_request_def
  overview_request_def truthy_def and_then_def py_get_def py_iter_def py_lower_def
  coin_matches_def Let_def

lemma run_single_fresh:
  "run basic_runtime (answers 200 (Json bitcoin)) fresh_world (GetSingleCoin ''BTC'' ''USD'')
     = (Inr bitcoin,
        \<lparr>cache = \<lparr>ttl = 300, entries = [''coin_BTC_USD'' \<mapsto> \<lparr>entry_value = bitcoin, entry_timestamp = 1\<rparr>]\<rparr>,
         clock = 1, sent = [single_request ''BTC'' ''USD'']\<rparr>)"
  by (simp add: gateway_eval fresh_world_def answers_def bitcoin_def)


lemmas route_eval = get_cryptocurrency_def get_cryptocurrencies_def search_cryptocurrencies_def
  get_market_overview_route_def validate_crypto_symbol_def validate_currency_def
  validate_limit_def match_alnum_upper_def supported_currencies_def except_ValueError_def
  is_ValueError_def single_response_def list_response_def list_item_def overview_response_def
  CryptocurrencyResponse_init_def CryptocurrencyListItem_init_def MarketOverview_init_def
  pyd_str_def pyd_float_def pyd_int_def pyd_optional_def percent_change_def float_operand_def
  http_status_def error_status_def livecoinwatch_exception_handler_def

lemmas float_eval = fsub_def fneg_def signed_def round_float_def round_half_even_def
  bit_length.simps float_0_0_def float_1_0_def float_100_def float_0_975_def Let_def

lemma percent_change_0_975:
  "fmul (fsub float_0_975 float_1_0) float_100 = Fin True 5629499534213125 (- 51)"
  by (simp add: float_eval)

lemma percent_change_day_0_975:
  "percent_change (JFloat float_0_975) = Inr (Fin True 5629499534213125 (- 51))"
  by (simp add: percent_change_def float_operand_def and_then_def percent_change_0_975)

lemma normalize_btc: "normalize '' btc '' = ''BTC''"
  by (simp add: normalize_def string_eval)

lemma validate_btc: "validate_crypto_symbol '' btc '' = Inr ''BTC''"
  by (simp add: validate_crypto_symbol_def match_alnum_upper_def string_eval)

lemma validate_USD: "validate_currency ''USD'' = Inr ''USD''"
  by (simp add: validate_currency_def supported_currencies_def string_eval)

lemma single_response_bitcoin:
  "single_response basic_runtime ''BTC'' bitcoin =
     Inr \<lparr>resp_symbol = ''BTC'', resp_name = ''Bitcoin'',
          resp_price = Fin False 6184821625716736 (- 37),
          resp_percent_change_24h = Fin True 5629499534213125 (- 51),
          resp_volume_24h = Fin False 6553600000000000 (- 18),
          resp_market_cap = Some (Fin False 6963200000000000 (- 13)),
          resp_rank = Some 1\<rparr>"
  by (simp add: single_response_def bitcoin_def py_get_def and_then_def percent_change_day_0_975
        CryptocurrencyResponse_init_def pyd_str_def pyd_float_def pyd_int_def pyd_optional_def)

lemma get_cryptocurrency_bitcoin:
  "get_cryptocurrency basic_runtime (answers 200 (Json bitcoin)) fresh_world '' btc '' USD =
     (Inr \<lparr>resp_symbol = ''BTC'', resp_name = ''Bitcoin'',
          resp_price = Fin False 6184821625716736 (- 37),
          resp_percent_change_24h = Fin True 5629499534213125 (- 51),
          resp_volume_24h = Fin False 6553600000000000 (- 18),
          resp_market_cap = Some (Fin False 6963200000000000 (- 13)),
          resp_rank = Some 1\<rparr>,
      \<lparr>cache = \<lparr>ttl = 300, entries = [''coin_BTC_USD'' \<mapsto> \<lparr>entry_value = bitcoin, entry_timestamp = 1\<rparr>]\<rparr>,
         clock = 1, sent = [single_request ''BTC'' ''USD'']\<rparr>)"
  using run_single_fresh
  by (simp add: get_cryptocurrency_def validate_btc validate_USD except_ValueError_def
        and_then_def single_response_bitcoin)




lemma run_timeout_stale:
  "run basic_runtime times_out stale_world (GetSingleCoin ''BTC'' ''USD'')
     = (Inl (LiveCoinWatchError ''Request timeout - API may be unavailable''),
        \<lparr>cache = \<lparr>ttl = 300, entries = Map.empty\<rparr>, clock = 1010,
         sent = [single_request ''BTC'' ''USD'']\<rparr>)"
  by (simp add: gateway_eval string_eval stale_world_def times_out_def)

text \<open>
  Where the literal reading of C6 fails: the lookup of BTC in the state with the expired
  entry times out at the provider, raises, and leaves a cache without that entry.
\<close>

theorem failed_call_evicts_expired_entry:
  "classify basic_runtime (outcome times_out)
     = Inl (LiveCoinWatchError ''Request timeout - API may be unavailable'') \<and>
   fst (run basic_runtime times_out stale_world (GetSingleCoin ''BTC'' ''USD''))
     = Inl (LiveCoinWatchError ''Request timeout - API may be unavailable'') \<and>
   entries (cache stale_world) ''coin_BTC_USD''
     = Some \<lparr>entry_value = bitcoin, entry_timestamp = 0\<rparr> \<and>
   entries (cache (snd (run basic_runtime times_out stale_world (GetSingleCoin ''BTC'' ''USD''))))
     ''coin_BTC_USD'' = None \<and>
   cache (snd (run basic_runtime times_out stale_world (GetSingleCoin ''BTC'' ''USD'')))
     \<noteq> cache stale_world"
proof -
  have "cache (snd (run basic_runtime times_out stale_world (GetSingleCoin ''BTC'' ''USD'')))
     \<noteq> cache stale_world"
  proof
    assume "cache (snd (run basic_runtime times_out stale_world (GetSingleCoin ''BTC'' ''USD'')))
      = cache stale_world"
    then have "entries (cache (snd (run basic_runtime times_out stale_world
        (GetSingleCoin ''BTC'' ''USD'')))) ''coin_BTC_USD'' = entries (cache stale_world) ''coin_BTC_USD''"
      by simp
    then show False unfolding run_timeout_stale by (simp add: stale_world_def)
  qed
  then show ?thesis
    unfolding run_timeout_stale by (simp add: classify_def times_out_def stale_world_def)
qed

text \<open>The same failed call as an instance of C6: nothing is written, and a later read agrees.\<close>

theorem failed_upstream_writes_nothing_witness:
  "classify basic_runtime (outcome times_out)
     = Inl (LiveCoinWatchError ''Request timeout - API may be unavailable'') \<and>
   sent (snd (run basic_runtime times_out stale_world (GetSingleCoin ''BTC'' ''USD'')))
     \<noteq> sent stale_world \<and>
   (\<exists>e. fst (run basic_runtime times_out stale_world (GetSingleCoin ''BTC'' ''USD'')) = Inl e) \<and>
   ttl (cache (snd (run basic_runtime times_out stale_world (GetSingleCoin ''BTC'' ''USD'')))) = 300 \<and>
   fst (cache_get 2000
          (cache (snd (run basic_runtime times_out stale_world (GetSingleCoin ''BTC'' ''USD''))))
          ''coin_BTC_USD'')
     = fst (cache_get 2000 (cache stale_world) ''coin_BTC_USD'')"
proof -
  have c: "classify basic_runtime (outcome times_out)
     = Inl (LiveCoinWatchError ''Request timeout - API may be unavailable'')"
    by (simp add: classify_def times_out_def)
  have s: "sent (snd (run basic_runtime times_out stale_world (GetSingleCoin ''BTC'' ''USD'')))
     \<noteq> sent stale_world"
    unfolding run_timeout_stale by (simp add: stale_world_def)
  have "clock stale_world \<le> 2000" "ttl (cache stale_world) = 300"
    by (simp_all add: stale_world_def)
  with failed_upstream_writes_nothing [OF c s] c s show ?thesis by simp
qed

lemma float_0_975_nearest: "\<bar>float_value float_0_975 - 975 / 1000\<bar> \<le> 1 / 2 ^ 54"
  by (simp add: float_value_def signed_def float_0_975_def)

lemma percent_change_0_975_close:
  "\<bar>float_value (Fin True 5629499534213125 (- 51)) - (- 5 / 2)\<bar> \<le> 1 / 10 ^ 9"
  by (simp add: float_value_def signed_def)

text \<open>
  Claim C3. For every payload with a \<open>delta.day\<close> member \<open>d\<close> for which the single-asset
  route answers with a response, \<open>d\<close> is a number and the response's
  \<open>percent_change_24h\<close> is \<open>(d - 1.0) * 100\<close> in binary64 arithmetic. In particular, for
  \<open>delta.day = 0.975\<close> (the float nearest to it) the result is the float
  \<open>-5629499534213125 \<sqdot> 2\<^sup>-\<^sup>5\<^sup>1\<close>, which differs from \<open>-2.5\<close> by less than \<open>10\<^sup>-\<^sup>9\<close>.
\<close>

theorem percent_change_24h_formula:
  "(get_cryptocurrency rt up w s c = (Inr r, w1) \<longrightarrow>
     (\<exists>data. get_single_coin rt up w (normalize s) (currency_value c) = (Inr data, w1) \<and>
        (\<forall>delta day. json_field data ''delta'' = Some delta \<and> json_field delta ''day'' = Some day \<longrightarrow>
           (\<exists>d. float_operand day = Inr d \<and> (\<forall>x. day = JFloat x \<longrightarrow> d = x) \<and>
                resp_percent_change_24h r = fmul (fsub d float_1_0) float_100)))) \<and>
   fmul (fsub float_0_975 float_1_0) float_100 = Fin True 5629499534213125 (- 51) \<and>
   \<bar>float_value (Fin True 5629499534213125 (- 51)) - (- 5 / 2)\<bar> \<le> 1 / 10 ^ 9 \<and>
   \<bar>float_value float_0_975 - 975 / 1000\<bar> \<le> 1 / 2 ^ 54"
  using percent_change_of_payload [of rt up w s c r w1] percent_change_0_975
    percent_change_0_975_close float_0_975_nearest
  by (intro conjI impI) assumption+

text \<open>
  An instance of C3, the end-to-end scenario of the specification: the lookup of BTC,
  for which the provider returns the payload with \<open>delta.day = 0.975\<close>, is answered with
  \<open>percent_change_24h = (0.975 - 1.0) * 100\<close>.
\<close>

theorem percent_change_24h_formula_witness:
  "get_cryptocurrency basic_runtime (answers 200 (Json bitcoin)) fresh_world '' btc '' USD
     = (Inr \<lparr>resp_symbol = ''BTC'', resp_name = ''Bitcoin'',
          resp_price = Fin False 6184821625716736 (- 37),
          resp_percent_change_24h = Fin True 5629499534213125 (- 51),
          resp_volume_24h = Fin False 6553600000000000 (- 18),
          resp_market_cap = Some (Fin False 6963200000000000 (- 13)),
          resp_rank = Some 1\<rparr>, bitcoin_cached) \<and>
   json_field bitcoin ''delta'' = Some (JObj [(''day'', JFloat float_0_975)]) \<and>
   json_field (JObj [(''day'', JFloat float_0_975)]) ''day'' = Some (JFloat float_0_975) \<and>
   Fin True 5629499534213125 (- 51) = fmul (fsub float_0_975 float_1_0) float_100"
proof -
  let ?r = "\<lparr>resp_symbol = ''BTC'', resp_name = ''Bitcoin'',
          resp_price = Fin False 6184821625716736 (- 37),
          resp_percent_change_24h = Fin True 5629499534213125 (- 51),
          resp_volume_24h = Fin False 6553600000000000 (- 18),
          resp_market_cap = Some (Fin False 6963200000000000 (- 13)),
          resp_rank = Some 1\<rparr>"
  have g: "get_cryptocurrency basic_runtime (answers 200 (Json bitcoin)) fresh_world '' btc '' USD
     = (Inr ?r, bitcoin_cached)"
    using get_cryptocurrency_bitcoin by (simp add: bitcoin_cached_def)
  have f1: "json_field bitcoin ''delta'' = Some (JObj [(''day'', JFloat float_0_975)])"
    by (simp add: json_field_def bitcoin_def)
  have f2: "json_field (JObj [(''day'', JFloat float_0_975)]) ''day'' = Some (JFloat float_0_975)"
    by (simp add: json_field_def)
  from percent_change_24h_formula [of basic_runtime "answers 200 (Json bitcoin)" fresh_world
      "'' btc ''" USD ?r bitcoin_cached] g
  obtain data where
    d: "get_single_coin basic_runtime (answers 200 (Json bitcoin)) fresh_world (normalize '' btc '')
          (currency_value USD) = (Inr data, bitcoin_cached)"
    and all: "\<forall>delta day. json_field data ''delta'' = Some delta \<and> json_field delta ''day'' = Some day \<longrightarrow>
           (\<exists>d. float_operand day = Inr d \<and> (\<forall>x. day = JFloat x \<longrightarrow> d = x) \<and>
                resp_percent_change_24h ?r = fmul (fsub d float_1_0) float_100)"
    by blast
  from d have "data = bitcoin"
    using run_single_fresh by (simp add: normalize_btc)
  with all f1 f2 obtain x where "\<forall>y. JFloat float_0_975 = JFloat y \<longrightarrow> x = y"
    "resp_percent_change_24h ?r = fmul (fsub x float_1_0) float_100" by blast
  then have "Fin True 5629499534213125 (- 51) = fmul (fsub float_0_975 float_1_0) float_100"
    by simp
  with g f1 f2 show ?thesis by simp
qed


lemma validate_btc_plain: "validate_crypto_symbol ''btc'' = Inr ''BTC''"
  by (simp add: validate_crypto_symbol_def match_alnum_upper_def string_eval)





lemma validate_limit_20: "validate_limit 20 100 = Inr 20"
  by (simp add: validate_limit_def)

lemma percent_change_unchanged:
  "percent_change (JFloat float_1_0) = Inr float_0_0"
  by (simp add: percent_change_def float_operand_def and_then_def float_eval)

lemma get_cryptocurrencies_two:
  "\<exists>r w1. get_cryptocurrencies basic_runtime (answers 200 (Json (JArr [bitcoin, ethereum])))
       fresh_world 20 0 USD = (Inr r, w1) \<and> length (list_data r) = 2"
  by (simp add: get_cryptocurrencies_def validate_limit_20 validate_USD except_ValueError_def
        gateway_eval string_eval fresh_world_def answers_def case_prod_beta
        list_response_def list_item_def bitcoin_def ethereum_def percent_change_day_0_975
        percent_change_unchanged
        CryptocurrencyListItem_init_def pyd_str_def pyd_float_def pyd_int_def pyd_optional_def)

lemma search_cryptocurrencies_one:
  "\<exists>r w1. search_cryptocurrencies basic_runtime (answers 200 (Json (JArr [bitcoin, ethereum])))
       fresh_world ''eth'' 10 USD = (Inr r, w1) \<and> length (list_data r) = 1"
  by (simp add: search_cryptocurrencies_def validate_limit_def validate_USD except_ValueError_def
        gateway_eval string_eval fresh_world_def answers_def case_prod_beta
        list_response_def list_item_def bitcoin_def ethereum_def percent_change_day_0_975
        percent_change_unchanged
        CryptocurrencyListItem_init_def pyd_str_def pyd_float_def pyd_int_def pyd_optional_def)

text \<open>
  Two instances of C10: a page of two assets, and a search with one match in it.
\<close>

theorem total_count_is_length_witness:
  "(\<exists>r w1. get_cryptocurrencies basic_runtime (answers 200 (Json (JArr [bitcoin, ethereum])))
       fresh_world 20 0 USD = (Inr r, w1) \<and> length (list_data r) = 2 \<and> total_count r = 2) \<and>
   (\<exists>r w1. search_cryptocurrencies basic_runtime (answers 200 (Json (JArr [bitcoin, ethereum])))
       fresh_world ''eth'' 10 USD = (Inr r, w1) \<and> length (list_data r) = 1 \<and> total_count r = 1)"
proof -
  from get_cryptocurrencies_two obtain r w1 where
    g: "get_cryptocurrencies basic_runtime (answers 200 (Json (JArr [bitcoin, ethereum])))
       fresh_world 20 0 USD = (Inr r, w1)" and l: "length (list_data r) = 2"
    by (elim exE conjE)
  from total_count_is_length [where rt = basic_runtime
      and up = "answers 200 (Json (JArr [bitcoin, ethereum]))" and w = fresh_world
      and limit = 20 and ofs = 0 and c = USD and r = r and ?w1.0 = w1, THEN conjunct1] g l
  have t: "total_count r = 2" by simp
  from search_cryptocurrencies_one obtain r' w1' where
    g': "search_cryptocurrencies basic_runtime (answers 200 (Json (JArr [bitcoin, ethereum])))
       fresh_world ''eth'' 10 USD = (Inr r', w1')" and l': "length (list_data r') = 1"
    by (elim exE conjE)
  from total_count_is_length [where rt = basic_runtime
      and up = "answers 200 (Json (JArr [bitcoin, ethereum]))" and w = fresh_world
      and q = "''eth''" and limit = 10 and c = USD and r = r' and ?w1.0 = w1',
      THEN conjunct2] g' l'
  have t': "total_count r' = 1" by simp
  from g l t have A: "\<exists>r w1. get_cryptocurrencies basic_runtime (answers 200 (Json (JArr [bitcoin, ethereum])))
       fresh_world 20 0 USD = (Inr r, w1) \<and> length (list_data r) = 2 \<and> total_count r = 2"
    by (intro exI conjI)
  from g' l' t' have B: "\<exists>r w1. search_cryptocurrencies basic_runtime (answers 200 (Json (JArr [bitcoin, ethereum])))
       fresh_world ''eth'' 10 USD = (Inr r, w1) \<and> length (list_data r) = 1 \<and> total_count r = 1"
    by (intro exI conjI)
  from A B show ?thesis by (rule conjI)
qed

lemmas coin_eval = bitcoin_def ethereum_def bitcoin_cash_def wrapped_bitcoin_def






lemma serve_sent_429:
  "sent (snd (serve basic_runtime (answers 429 NoContent) fresh_world (Crypto ''btc'' USD)))
     \<noteq> sent fresh_world"
  by (simp add: get_cryptocurrency_def validate_btc_plain validate_USD case_prod_beta
        gateway_eval string_eval fresh_world_def answers_def)

lemma serve_sent_401:
  "sent (snd (serve basic_runtime (answers 401 NoContent) fresh_world (CryptoList 20 0 USD)))
     \<noteq> sent fresh_world"
  by (simp add: get_cryptocurrencies_def validate_limit_20 validate_USD case_prod_beta
        gateway_eval string_eval fresh_world_def answers_def)

lemma serve_sent_500:
  "sent (snd (serve basic_runtime (answers 500 NoContent) fresh_world (Search ''bit'' 10 USD)))
     \<noteq> sent fresh_world"
  by (simp add: search_cryptocurrencies_def validate_limit_def validate_USD case_prod_beta
        gateway_eval string_eval fresh_world_def answers_def)

lemma serve_sent_500_described:
  "sent (snd (serve basic_runtime (answers 500 (error_body ''Internal failure'')) fresh_world (Market USD)))
     \<noteq> sent fresh_world"
  by (simp add: get_market_overview_route_def validate_USD case_prod_beta
        gateway_eval string_eval fresh_world_def answers_def error_body_def)

text \<open>
  Instances of C5 on a fresh state: 429 on the single-asset route, 401 on the list route,
  500 without a body on the search route and 500 with a description on the overview
  route.
\<close>

theorem upstream_error_status_witness:
  "fst (serve basic_runtime (answers 429 NoContent) fresh_world (Crypto ''btc'' USD)) = 429 \<and>
   fst (serve basic_runtime (answers 401 NoContent) fresh_world (CryptoList 20 0 USD)) = 401 \<and>
   fst (serve basic_runtime (answers 500 NoContent) fresh_world (Search ''bit'' 10 USD)) = 502 \<and>
   fst (serve basic_runtime (answers 500 (error_body ''Internal failure'')) fresh_world (Market USD))
     = 502"
proof -
  have d1: "error_description NoContent = Some ''Unknown error''"
    by (simp add: error_description_def)
  have d2: "error_description (error_body ''Internal failure'') = Some ''Internal failure''"
    by (simp add: error_description_def error_body_def)
  have k1: "\<not> py_in ''not found'' (lower ''Unknown error'')"
    "\<not> py_in ''unauthorized'' (lower ''Unknown error'')"
    "\<not> py_in ''rate limit'' (lower ''Unknown error'')"
    by (simp_all add: string_eval)
  have k2: "\<not> py_in ''not found'' (lower ''Internal failure'')"
    "\<not> py_in ''unauthorized'' (lower ''Internal failure'')"
    "\<not> py_in ''rate limit'' (lower ''Internal failure'')"
    by (simp_all add: string_eval)
  have o: "outcome (answers s b) = Response s b" for s b
    by (simp add: answers_def)
  from upstream_error_status [OF serve_sent_429, THEN conjunct1, rule_format, OF o]
  have a: "fst (serve basic_runtime (answers 429 NoContent) fresh_world (Crypto ''btc'' USD)) = 429"
    by (rule conjunct2)
  from upstream_error_status [OF serve_sent_401, THEN conjunct2, THEN conjunct1, rule_format, OF o]
  have b: "fst (serve basic_runtime (answers 401 NoContent) fresh_world (CryptoList 20 0 USD)) = 401" .
  from upstream_error_status [OF serve_sent_500, THEN conjunct2, THEN conjunct2, rule_format,
      of NoContent "''Unknown error''"] o d1 k1
  have c: "fst (serve basic_runtime (answers 500 NoContent) fresh_world (Search ''bit'' 10 USD)) = 502"
    by blast
  from upstream_error_status [OF serve_sent_500_described, THEN conjunct2, THEN conjunct2,
      rule_format, of "error_body ''Internal failure''" "''Internal failure''"] o d2 k2
  have d: "fst (serve basic_runtime (answers 500 (error_body ''Internal failure'')) fresh_world
      (Market USD)) = 502"
    by blast
  from a b c d show ?thesis by (intro conjI)
qed

text \<open>
  Where the unconditional reading of C5 fails: a response 500 whose description contains
  \<^verbatim>\<open>not found\<close> is answered with HTTP 404.
\<close>

theorem described_500_is_answered_404:
  "fst (serve basic_runtime (answers 500 (error_body ''Coin not found'')) fresh_world
          (CryptoList 20 0 USD)) = 404 \<and>
   sent (snd (serve basic_runtime (answers 500 (error_body ''Coin not found'')) fresh_world
          (CryptoList 20 0 USD))) = [list_request ''USD'' 20 0] \<and>
   classify basic_runtime (Response 500 (error_body ''Coin not found''))
     = Inl (LiveCoinWatchError ''API error (500): Coin not found'')"
  by (simp add: get_cryptocurrencies_def validate_limit_20 validate_USD case_prod_beta
        gateway_eval string_eval fresh_world_def answers_def error_body_def
        api_error_message_def except_ValueError_def is_ValueError_def route_eval py_str_def)

lemma run_search_doge:
  "run basic_runtime (answers 200 (Json (JArr [bitcoin, ethereum]))) fresh_world
      (SearchCoins ''doge'' ''USD'' 10) = (Inr (JArr []), searched_world)"
  by (simp add: gateway_eval string_eval fresh_world_def answers_def case_prod_beta
        searched_world_def coin_eval fun_upd_twist)

text \<open>
  Where the last part of C9 fails: a search that matches nothing in a listing of two
  entries stores the empty result; the same search repeated at once is not answered from
  that entry, yet it posts nothing, because the listing comes from the cache. One request
  has been posted in all.
\<close>

theorem empty_search_result_is_not_refetched:
  "fst (run basic_runtime (answers 200 (Json (JArr [bitcoin, ethereum]))) fresh_world
          (SearchCoins ''doge'' ''USD'' 10)) = Inr (JArr []) \<and>
   sent (snd (run basic_runtime (answers 200 (Json (JArr [bitcoin, ethereum]))) fresh_world
          (SearchCoins ''doge'' ''USD'' 10))) = [list_request ''USD'' 200 0] \<and>
   fst (run basic_runtime (answers 200 (Json (JArr [bitcoin, ethereum])))
          (snd (run basic_runtime (answers 200 (Json (JArr [bitcoin, ethereum]))) fresh_world
                  (SearchCoins ''doge'' ''USD'' 10)))
          (SearchCoins ''doge'' ''USD'' 10)) = Inr (JArr []) \<and>
   sent (snd (run basic_runtime (answers 200 (Json (JArr [bitcoin, ethereum])))
          (snd (run basic_runtime (answers 200 (Json (JArr [bitcoin, ethereum]))) fresh_world
                  (SearchCoins ''doge'' ''USD'' 10)))
          (SearchCoins ''doge'' ''USD'' 10))) = [list_request ''USD'' 200 0]"
  unfolding run_search_doge
  by (simp add: gateway_eval string_eval answers_def case_prod_beta searched_world_def coin_eval)

text \<open>
  An instance of C9: the state after that search holds the empty result and the listing;
  the repeated search posts nothing.
\<close>

theorem falsy_cached_value_is_a_miss_witness:
  "entries (cache searched_world) (key_of (SearchCoins ''doge'' ''USD'' 10))
     = Some \<lparr>entry_value = JArr [], entry_timestamp = 1\<rparr> \<and>
   \<not> truthy (JArr []) \<and>
   entries (cache searched_world) (coins_list_key ''USD'' 200 0)
     = Some \<lparr>entry_value = JArr [bitcoin, ethereum], entry_timestamp = 1\<rparr> \<and>
   sent (snd (run basic_runtime times_out searched_world (SearchCoins ''doge'' ''USD'' 10)))
     = sent searched_world"
proof -
  let ?op = "SearchCoins ''doge'' ''USD'' 10"
  have e: "entries (cache searched_world) (key_of ?op)
     = Some \<lparr>entry_value = JArr [], entry_timestamp = 1\<rparr>"
    by (simp add: searched_world_def search_key_def string_eval)
  have f: "\<not> truthy (entry_value \<lparr>entry_value = JArr [], entry_timestamp = 1\<rparr>)"
    by (simp add: truthy_def)
  have l: "entries (cache searched_world) (coins_list_key ''USD'' 200 0)
     = Some \<lparr>entry_value = JArr [bitcoin, ethereum], entry_timestamp = 1\<rparr>"
    by (simp add: searched_world_def coins_list_key_def string_eval)
  have live: "truthy (entry_value \<lparr>entry_value = JArr [bitcoin, ethereum], entry_timestamp = 1\<rparr>) \<and>
      clock searched_world - entry_timestamp \<lparr>entry_value = JArr [bitcoin, ethereum], entry_timestamp = 1\<rparr>
        \<le> of_int (ttl (cache searched_world))"
    by (simp add: truthy_def searched_world_def)
  from falsy_cached_value_is_a_miss [OF e f, of basic_runtime times_out,
      THEN conjunct2, THEN conjunct2, THEN conjunct2, rule_format, OF refl, THEN conjunct1,
      rule_format, of "\<lparr>entry_value = JArr [bitcoin, ethereum], entry_timestamp = 1\<rparr>"]
    l live
  have "sent (snd (run basic_runtime times_out searched_world ?op)) = sent searched_world"
    by simp
  with e f l show ?thesis by simp
qed


end
